theory Spec2Isabelle
  imports Main "HOL-Library.AList"
begin

section \<open>The trait compiler of ngtsc (transform/src/compilation.ts)\<close>

text \<open>
  A shallow embedding of the class \<open>TraitCompiler\<close>. Objects that the TypeScript mutates
  in place (class records, traits, the maps of the compiler) are values of an explicit
  compiler state that every method takes and returns. A \<open>Map\<close> that the code iterates is
  an association list in insertion order (\<open>AList.update\<close> keeps the position of an
  existing key and appends a new one, as \<open>Map.prototype.set\<close> does); a \<open>Map\<close> that is
  only looked up is a partial function. An exception is a value of \<open>Thrown\<close>.
\<close>

subsection \<open>Syntax tree nodes and diagnostics\<close>

datatype SourceFile = SourceFile (fileName: string)

datatype Decorator = Decorator (decoratorName: string)

text \<open>
  A named class declaration, with what the compiler reads from it: \<open>name.text\<close>,
  \<open>getSourceFile()\<close>, \<open>isExported\<close>, \<open>getStart(undefined, false)\<close>, \<open>getWidth()\<close>.
  The field \<open>nodeId\<close> stands for the identity of the node object (the key of the maps).
\<close>

record ClassDeclaration =
  nodeId :: nat
  nameText :: string
  sourceFile :: SourceFile
  exported :: bool
  startPos :: nat
  width :: nat

datatype DiagnosticCategory = Warning | Error | Suggestion | Message

record Diagnostic =
  category :: DiagnosticCategory
  code :: int
  file' :: SourceFile
  start :: nat
  length' :: nat
  messageText :: string

text \<open>
  \<open>Number('-99' + c)\<close> for an error code \<open>c\<close> of the enum \<open>ErrorCode\<close>: the decimal
  digits of \<open>c\<close> appended to \<open>-99\<close>. The enum is declared outside this file, so the
  value of \<open>ErrorCode.DECORATOR_COLLISION\<close> is a parameter of the functions that use it.
\<close>

fun decimalDigits :: "nat \<Rightarrow> nat" where
  "decimalDigits n = (if n < 10 then 1 else Suc (decimalDigits (n div 10)))"

declare decimalDigits.simps [simp del]

definition ngErrorCode :: "nat \<Rightarrow> int" where
  "ngErrorCode c = - (99 * 10 ^ decimalDigits c + int c)"

datatype Thrown = FatalDiagnosticError (toDiagnostic: Diagnostic) | JsError string

subsection \<open>Handlers (the interface of api.ts)\<close>

text \<open>
  Modelled from the spec: the declarations of api.ts are not part of the sources. A
  handler has a precedence (PRIMARY, WEAK or the default one) and the capabilities
  detect, preanalyze (optional), analyze, resolve (optional) and compile. All payloads
  have the type \<open>unknown\<close> in the compiler, here the type variable \<open>'u\<close>. The
  capabilities \<open>analyze\<close> and \<open>resolve\<close> can throw, which the compiler catches;
  \<open>detect\<close>, \<open>preanalyze\<close> and \<open>compile\<close> are taken to return. The field
  \<open>constructorName\<close> is \<open>Object.getPrototypeOf(handler).constructor.name\<close>.

  \<open>preanalyze\<close> returns \<open>undefined\<close> (here \<open>None\<close>) or a promise, which is taken to settle:
  it is given by the way it settles, fulfilled or rejected with a reason.
\<close>

datatype Settlement = Fulfils | Rejects Thrown

datatype HandlerPrecedence = PRIMARY | DEFAULT | WEAK

record 'u DetectResult =
  trigger :: "Decorator option"
  metadata :: 'u

record 'u AnalysisOutput =
  ao_analysis :: "'u option"
  ao_diagnostics :: "Diagnostic list option"
  ao_factorySymbolName :: "string option"

record Reexport =
  symbolName :: string
  asAlias :: string
  fromModule :: string

record 'u ResolveResult =
  rr_reexports :: "Reexport list option"
  rr_diagnostics :: "Diagnostic list option"
  rr_data :: "'u option"

record CompileResult =
  name :: string
  content :: string

datatype CompileOutput = Single CompileResult | Array "CompileResult list"

datatype ConstantPool = ConstantPool (statements: "string list")

record 'u DecoratorHandler =
  constructorName :: string
  precedence :: HandlerPrecedence
  detect :: "ClassDeclaration \<Rightarrow> Decorator list option \<Rightarrow> 'u DetectResult option"
  preanalyze :: "(ClassDeclaration \<Rightarrow> 'u \<Rightarrow> Settlement option) option"
  analyze :: "ClassDeclaration \<Rightarrow> 'u \<Rightarrow> Thrown + 'u AnalysisOutput"
  resolve :: "(ClassDeclaration \<Rightarrow> 'u option \<Rightarrow> Thrown + 'u ResolveResult) option"
  compile :: "ClassDeclaration \<Rightarrow> 'u option \<Rightarrow> 'u option \<Rightarrow> ConstantPool
                \<Rightarrow> CompileOutput \<times> ConstantPool"

subsection \<open>Traits (the interface of trait.ts)\<close>

text \<open>
  Modelled from the spec: trait.ts is not part of the sources. A trait pairs a handler
  with the result of its detect step and carries the state and the payloads of the
  lifecycle: \<open>analysis\<close> once ANALYZED, \<open>resolution\<close> once RESOLVED, \<open>diagnostics\<close>
  once ERRORED. A transition changes the trait object itself (the compiler drops the
  value it returns at the end of each loop body, so any other reading would lose every
  transition); the methods of the compiler that run a transition on a trait of a record
  therefore return the record with the new trait in the place of the old one.
\<close>

datatype TraitState = PENDING | ANALYZED | RESOLVED | ERRORED | SKIPPED

fun TraitState_name :: "TraitState \<Rightarrow> string" where
  "TraitState_name PENDING = ''PENDING''"
| "TraitState_name ANALYZED = ''ANALYZED''"
| "TraitState_name RESOLVED = ''RESOLVED''"
| "TraitState_name ERRORED = ''ERRORED''"
| "TraitState_name SKIPPED = ''SKIPPED''"

record 'u Trait =
  state :: TraitState
  handler :: "'u DecoratorHandler"
  detected :: "'u DetectResult"
  analysis :: "'u option"
  resolution :: "'u option"
  diagnostics :: "Diagnostic list option"

definition Trait_pending :: "'u DecoratorHandler \<Rightarrow> 'u DetectResult \<Rightarrow> 'u Trait" where
  "Trait_pending h d =
     \<lparr>state = PENDING, handler = h, detected = d, analysis = None, resolution = None,
      diagnostics = None\<rparr>"

definition toAnalyzed :: "'u Trait \<Rightarrow> 'u \<Rightarrow> 'u Trait" where
  "toAnalyzed t a = t\<lparr>state := ANALYZED, analysis := Some a\<rparr>"

definition toErrored :: "'u Trait \<Rightarrow> Diagnostic list \<Rightarrow> 'u Trait" where
  "toErrored t ds = t\<lparr>state := ERRORED, diagnostics := Some ds\<rparr>"

definition toResolved :: "'u Trait \<Rightarrow> 'u option \<Rightarrow> 'u Trait" where
  "toResolved t r = t\<lparr>state := RESOLVED, resolution := r\<rparr>"

definition toSkipped :: "'u Trait \<Rightarrow> 'u Trait" where
  "toSkipped t = t\<lparr>state := SKIPPED\<rparr>"

subsection \<open>Class records and the state of the compiler\<close>

record 'u ClassRecord =
  node :: ClassDeclaration
  traits :: "'u Trait list"
  metaDiagnostics :: "Diagnostic list option"
  hasWeakHandlers :: bool
  hasPrimaryHandler :: bool

text \<open>
  Modelled from the spec: the incremental store, the scope registry and the registry of
  declaration-file transforms are collaborators outside the sources. The store keeps,
  for every file, the set of files it depends on; a compilation scope names a
  declaration, its NgModule and the directives and pipes in scope; a declaration-file
  transform keeps the fields added for each declaration.
\<close>

record ScopeDirective =
  directiveFile :: SourceFile
  isComponent :: bool

record CompilationScope =
  declarationSf :: SourceFile
  ngModuleSf :: SourceFile
  directives :: "ScopeDirective list"
  pipes :: "SourceFile list"

type_synonym IncrementalDriver = "SourceFile \<Rightarrow> SourceFile set"

type_synonym DtsTransformRegistry =
  "SourceFile \<rightharpoonup> (ClassDeclaration \<rightharpoonup> CompileResult list)"

record 'u TraitCompiler =
  handlers :: "'u DecoratorHandler list"
  getDecoratorsOfDeclaration :: "ClassDeclaration \<Rightarrow> Decorator list option"
  incrementalDriver :: IncrementalDriver
  sourceToFactorySymbols :: "(string \<rightharpoonup> string set) option"
  scopeRegistry :: "CompilationScope list"
  compileNonExportedClasses :: bool
  dtsTransforms :: DtsTransformRegistry
  classes :: "(ClassDeclaration \<times> 'u ClassRecord) list"
  fileToClasses :: "SourceFile \<rightharpoonup> ClassDeclaration set"
  reexportMap :: "string \<rightharpoonup> (string \<rightharpoonup> string \<times> string)"

subsection \<open>Matching: scanClassForTraits\<close>

text \<open>
  The record of a class is one object: the local variable \<open>record\<close> of the loop and the
  value of the map \<open>classes\<close> at the class are the same object from the first match
  on. The model keeps both and writes every change of the record to the map as well
  (\<open>storeRecord\<close>).
\<close>

definition incompatibleDecorators :: "nat \<Rightarrow> ClassDeclaration \<Rightarrow> Diagnostic" where
  "incompatibleDecorators DECORATOR_COLLISION clazz =
     \<lparr>category = Error,
      code = ngErrorCode DECORATOR_COLLISION,
      file' = sourceFile clazz,
      start = startPos clazz,
      length' = width clazz,
      messageText = ''Two incompatible decorators on class''\<rparr>"

definition storeRecord ::
  "'u TraitCompiler \<Rightarrow> ClassDeclaration \<Rightarrow> 'u ClassRecord \<Rightarrow> 'u TraitCompiler" where
  "storeRecord tc clazz r = tc\<lparr>classes := AList.update clazz r (classes tc)\<rparr>"

definition addToFile ::
  "'u TraitCompiler \<Rightarrow> SourceFile \<Rightarrow> ClassDeclaration \<Rightarrow> 'u TraitCompiler" where
  "addToFile tc sf clazz =
     tc\<lparr>fileToClasses := (fileToClasses tc)
          (sf \<mapsto> insert clazz (case fileToClasses tc sf of None \<Rightarrow> {} | Some s \<Rightarrow> s))\<rparr>"

datatype 's LoopControl = Next 's | Return 's

text \<open>
  The end of the loop body for a second or later match (the collision check and the
  push), on the record \<open>r1\<close> as the precedence rules left it.
\<close>

definition acceptTrait ::
  "nat \<Rightarrow> 'u TraitCompiler \<Rightarrow> ClassDeclaration \<Rightarrow> 'u Trait \<Rightarrow> bool \<Rightarrow> 'u ClassRecord
     \<Rightarrow> ('u TraitCompiler \<times> 'u ClassRecord option) LoopControl" where
  "acceptTrait ec tc clazz trait isPrimaryHandler r1 =
     (if isPrimaryHandler \<and> hasPrimaryHandler r1
      then (let r2 = r1\<lparr>metaDiagnostics := Some [incompatibleDecorators ec clazz],
                         traits := []\<rparr>
            in Return (storeRecord tc clazz r2, Some r2))
      else (let r2 = r1\<lparr>traits := traits r1 @ [trait],
                         hasPrimaryHandler := (hasPrimaryHandler r1 \<or> isPrimaryHandler)\<rparr>
            in Next (storeRecord tc clazz r2, Some r2)))"

text \<open>One iteration of the loop over the handlers, for the handler \<open>h\<close>.\<close>

definition scanStep ::
  "nat \<Rightarrow> ClassDeclaration \<Rightarrow> Decorator list option \<Rightarrow> 'u DecoratorHandler
     \<Rightarrow> 'u TraitCompiler \<times> 'u ClassRecord option
     \<Rightarrow> ('u TraitCompiler \<times> 'u ClassRecord option) LoopControl" where
  "scanStep ec clazz decorators h st =
     (case st of (tc, record) \<Rightarrow>
      (case detect h clazz decorators of
         None \<Rightarrow> Next (tc, record)
       | Some result \<Rightarrow>
          (let isPrimaryHandler = (precedence h = PRIMARY);
               isWeakHandler = (precedence h = WEAK);
               trait = Trait_pending h result
           in (case record of
                 None \<Rightarrow>
                   (let r = \<lparr>node = clazz, traits = [trait], metaDiagnostics = None,
                             hasWeakHandlers = isWeakHandler,
                             hasPrimaryHandler = isPrimaryHandler\<rparr>
                    in Next (addToFile (storeRecord tc clazz r) (sourceFile clazz) clazz,
                             Some r))
               | Some r0 \<Rightarrow>
                   if \<not> isWeakHandler \<and> hasWeakHandlers r0
                   then acceptTrait ec tc clazz trait isPrimaryHandler
                          (r0\<lparr>traits := filter (\<lambda>field. precedence (handler field) \<noteq> WEAK)
                                          (traits r0),
                              hasWeakHandlers := False\<rparr>)
                   else if isWeakHandler \<and> \<not> hasWeakHandlers r0
                   then Next (tc, record)
                   else acceptTrait ec tc clazz trait isPrimaryHandler r0))))"

text \<open>
  The loop over the handlers: \<open>Return\<close> when the body returned from the method (the
  collision), \<open>Next\<close> when the loop ran to its end.
\<close>

fun scanLoop ::
  "nat \<Rightarrow> ClassDeclaration \<Rightarrow> Decorator list option \<Rightarrow> 'u DecoratorHandler list
     \<Rightarrow> 'u TraitCompiler \<times> 'u ClassRecord option
     \<Rightarrow> ('u TraitCompiler \<times> 'u ClassRecord option) LoopControl" where
  "scanLoop ec clazz decorators [] st = Next st"
| "scanLoop ec clazz decorators (h # hs) st =
     (case scanStep ec clazz decorators h st of
        Next st' \<Rightarrow> scanLoop ec clazz decorators hs st'
      | Return st' \<Rightarrow> Return st')"

fun finish :: "'s LoopControl \<Rightarrow> 's" where
  "finish (Next st) = st"
| "finish (Return st) = st"

definition scanClassForTraits ::
  "nat \<Rightarrow> 'u TraitCompiler \<Rightarrow> ClassDeclaration
     \<Rightarrow> 'u TraitCompiler \<times> 'u ClassRecord option" where
  "scanClassForTraits ec tc clazz =
     (if \<not> compileNonExportedClasses tc \<and> \<not> exported clazz then (tc, None)
      else (let decorators = getDecoratorsOfDeclaration tc clazz
            in finish (scanLoop ec clazz decorators (handlers tc) (tc, None))))"

subsection \<open>Analysis: analyzeTrait, analyzeClass, analyzeSync, analyzeAsync\<close>

text \<open>
  \<open>analyzeTrait\<close> throws before it changes anything, so its result is either the thrown
  value or the compiler (of which it changes \<open>sourceToFactorySymbols\<close> only) with the
  trait after its transition.
\<close>

definition analyzeTrait ::
  "'u TraitCompiler \<Rightarrow> ClassDeclaration \<Rightarrow> 'u Trait \<Rightarrow> Thrown + ('u TraitCompiler \<times> 'u Trait)" where
  "analyzeTrait tc clazz trait =
     (if state trait \<noteq> PENDING
      then Inl (JsError (''Attempt to analyze trait of '' @ nameText clazz @ '' in state '' @
                         TraitState_name (state trait) @ '' (expected DETECTED)''))
      else (case analyze (handler trait) clazz (metadata (detected trait)) of
              Inl err \<Rightarrow>
                (case err of
                   FatalDiagnosticError d \<Rightarrow> Inr (tc, toErrored trait [d])
                 | JsError m \<Rightarrow> Inl err)
            | Inr result \<Rightarrow>
                (case ao_diagnostics result of
                   Some ds \<Rightarrow> Inr (tc, toErrored trait ds)
                 | None \<Rightarrow>
                     (case ao_analysis result of
                        Some a \<Rightarrow>
                          (let sf = sourceFile clazz
                           in (case (ao_factorySymbolName result, sourceToFactorySymbols tc) of
                                 (Some n, Some symbols) \<Rightarrow>
                                   (case symbols (fileName sf) of
                                      Some names \<Rightarrow>
                                        Inr (tc\<lparr>sourceToFactorySymbols :=
                                                   Some (symbols(fileName sf \<mapsto> insert n names))\<rparr>,
                                             toAnalyzed trait a)
                                    | None \<Rightarrow> Inr (tc, toAnalyzed trait a))
                               | _ \<Rightarrow> Inr (tc, toAnalyzed trait a)))
                      | None \<Rightarrow> Inr (tc, toSkipped trait)))))"

text \<open>
  The loop of \<open>analyzeClass\<close> over the traits of the record, on the synchronous path
  (no queue of preanalysis promises): the traits after the loop, and the value thrown, if
  any. A throw leaves the loop; the traits not reached stay as they are.
\<close>

fun analyzeTraits ::
  "'u TraitCompiler \<Rightarrow> ClassDeclaration \<Rightarrow> 'u Trait list
     \<Rightarrow> 'u TraitCompiler \<times> 'u Trait list \<times> Thrown option" where
  "analyzeTraits tc clazz [] = (tc, [], None)"
| "analyzeTraits tc clazz (trait # ts) =
     (case analyzeTrait tc clazz trait of
        Inl err \<Rightarrow> (tc, trait # ts, Some err)
      | Inr (tc', trait') \<Rightarrow>
          (case analyzeTraits tc' clazz ts of (tc'', ts', thrown) \<Rightarrow> (tc'', trait' # ts', thrown)))"

definition analyzeClass ::
  "nat \<Rightarrow> 'u TraitCompiler \<Rightarrow> ClassDeclaration \<Rightarrow> 'u TraitCompiler \<times> Thrown option" where
  "analyzeClass ec tc clazz =
     (case scanClassForTraits ec tc clazz of
        (tc1, None) \<Rightarrow> (tc1, None)
      | (tc1, Some record) \<Rightarrow>
          (case analyzeTraits tc1 clazz (traits record) of
             (tc2, ts, thrown) \<Rightarrow> (storeRecord tc2 clazz (record\<lparr>traits := ts\<rparr>), thrown)))"

text \<open>
  \<open>analyzeSync\<close> on a source file whose named class declarations are, in the order of the
  visit, the list given. (The scan for ModuleWithProviders that follows the visit
  touches none of the state modelled here.)
\<close>

fun analyzeSync ::
  "nat \<Rightarrow> 'u TraitCompiler \<Rightarrow> ClassDeclaration list \<Rightarrow> 'u TraitCompiler \<times> Thrown option" where
  "analyzeSync ec tc [] = (tc, None)"
| "analyzeSync ec tc (clazz # cs) =
     (case analyzeClass ec tc clazz of
        (tc', Some err) \<Rightarrow> (tc', Some err)
      | (tc', None) \<Rightarrow> analyzeSync ec tc' cs)"

text \<open>
  The deferred path, \<open>analyzeAsync\<close>. With a queue of promises, \<open>analyzeClass\<close> asks the
  handler of each trait for its preanalysis. When there is a promise, the promise
  \<open>preanalysis.then(analyze)\<close> goes to the queue and the trait is analysed once the
  preanalysis has settled; otherwise the trait is analysed at once, as on the
  synchronous path.

  An entry of the queue names the trait that its \<open>analyze\<close> closure holds, by the class and
  the position of the trait in the record of the class (the map never loses a class, and
  the visit meets a class once, so that this is the trait object of the closure), and
  gives the way in which the preanalysis settles.
\<close>

record DeferredAnalysis =
  deferredClass :: ClassDeclaration
  deferredTrait :: nat
  preanalysis :: Settlement

text \<open>
  The loop of \<open>analyzeClass\<close> over the traits of the record with a queue: \<open>i\<close> is the
  position in the record of the first trait of the list.
\<close>

fun analyzeTraits_preanalyze ::
  "'u TraitCompiler \<Rightarrow> ClassDeclaration \<Rightarrow> nat \<Rightarrow> 'u Trait list \<Rightarrow> DeferredAnalysis list
     \<Rightarrow> 'u TraitCompiler \<times> 'u Trait list \<times> DeferredAnalysis list \<times> Thrown option" where
  "analyzeTraits_preanalyze tc clazz i [] preanalyzeQueue = (tc, [], preanalyzeQueue, None)"
| "analyzeTraits_preanalyze tc clazz i (trait # ts) preanalyzeQueue =
     (case (case preanalyze (handler trait) of
              None \<Rightarrow> None
            | Some handler_preanalyze \<Rightarrow> handler_preanalyze clazz (metadata (detected trait))) of
        Some promise \<Rightarrow>
          (case analyzeTraits_preanalyze tc clazz (Suc i) ts
                  (preanalyzeQueue @
                     [\<lparr>deferredClass = clazz, deferredTrait = i, preanalysis = promise\<rparr>]) of
             (tc', ts', queue', thrown) \<Rightarrow> (tc', trait # ts', queue', thrown))
      | None \<Rightarrow>
          (case analyzeTrait tc clazz trait of
             Inl err \<Rightarrow> (tc, trait # ts, preanalyzeQueue, Some err)
           | Inr (tc', trait') \<Rightarrow>
               (case analyzeTraits_preanalyze tc' clazz (Suc i) ts preanalyzeQueue of
                  (tc'', ts', queue', thrown) \<Rightarrow> (tc'', trait' # ts', queue', thrown))))"

definition analyzeClass_preanalyze ::
  "nat \<Rightarrow> 'u TraitCompiler \<Rightarrow> ClassDeclaration \<Rightarrow> DeferredAnalysis list
     \<Rightarrow> 'u TraitCompiler \<times> DeferredAnalysis list \<times> Thrown option" where
  "analyzeClass_preanalyze ec tc clazz preanalyzeQueue =
     (case scanClassForTraits ec tc clazz of
        (tc1, None) \<Rightarrow> (tc1, preanalyzeQueue, None)
      | (tc1, Some record) \<Rightarrow>
          (case analyzeTraits_preanalyze tc1 clazz 0 (traits record) preanalyzeQueue of
             (tc2, ts, queue', thrown) \<Rightarrow>
               (storeRecord tc2 clazz (record\<lparr>traits := ts\<rparr>), queue', thrown)))"

text \<open>
  The visit of \<open>analyze(sf, true)\<close> over the named class declarations of the file, and
  \<open>analyzeAsync\<close>: the compiler after the visit, the promises of the queue, and the value
  thrown by the visit, if any. When nothing is thrown and the queue is not empty,
  \<open>analyzeAsync\<close> returns \<open>Promise.all\<close> of the queue.
\<close>

fun visit_preanalyze ::
  "nat \<Rightarrow> 'u TraitCompiler \<Rightarrow> ClassDeclaration list \<Rightarrow> DeferredAnalysis list
     \<Rightarrow> 'u TraitCompiler \<times> DeferredAnalysis list \<times> Thrown option" where
  "visit_preanalyze ec tc [] promises = (tc, promises, None)"
| "visit_preanalyze ec tc (clazz # cs) promises =
     (case analyzeClass_preanalyze ec tc clazz promises of
        (tc', promises', Some err) \<Rightarrow> (tc', promises', Some err)
      | (tc', promises', None) \<Rightarrow> visit_preanalyze ec tc' cs promises')"

definition analyzeAsync ::
  "nat \<Rightarrow> 'u TraitCompiler \<Rightarrow> ClassDeclaration list
     \<Rightarrow> 'u TraitCompiler \<times> DeferredAnalysis list \<times> Thrown option" where
  "analyzeAsync ec tc cs = visit_preanalyze ec tc cs []"

text \<open>
  The promise \<open>preanalysis.then(analyze)\<close> of an entry, when its preanalysis settles with
  the compiler in the state \<open>tc\<close>: the compiler afterwards, and the reason with which the
  promise rejects, if it does. A rejected preanalysis rejects the promise and \<open>analyze\<close> is
  not called; after a fulfilled one, \<open>analyze\<close> calls \<open>analyzeTrait\<close> on the trait, and
  what that throws rejects the promise. (An entry whose class has no record, or whose
  record has no trait at its position, is not an entry that \<open>analyzeClass\<close> has queued
  on the way to this state; the model leaves the compiler as it is there.)
\<close>

definition thenAnalyze ::
  "'u TraitCompiler \<Rightarrow> DeferredAnalysis \<Rightarrow> 'u TraitCompiler \<times> Thrown option" where
  "thenAnalyze tc task =
     (case preanalysis task of
        Rejects reason \<Rightarrow> (tc, Some reason)
      | Fulfils \<Rightarrow>
          (case map_of (classes tc) (deferredClass task) of
             None \<Rightarrow> (tc, None)
           | Some record \<Rightarrow>
               if deferredTrait task < length (traits record)
               then (case analyzeTrait tc (deferredClass task)
                             (traits record ! deferredTrait task) of
                       Inl err \<Rightarrow> (tc, Some err)
                     | Inr (tc', trait') \<Rightarrow>
                         (storeRecord tc' (deferredClass task)
                            (record\<lparr>traits := (traits record)[deferredTrait task := trait']\<rparr>),
                          None))
               else (tc, None)))"

text \<open>
  \<open>Promise.all\<close> of promises of the queue that settle in the order of the list: each one
  runs, whatever the others did; the join rejects with the reason of the first that
  rejects and is fulfilled when none does.
\<close>

fun Promise_all ::
  "'u TraitCompiler \<Rightarrow> DeferredAnalysis list \<Rightarrow> 'u TraitCompiler \<times> Thrown option" where
  "Promise_all tc [] = (tc, None)"
| "Promise_all tc (task # tasks) =
     (case thenAnalyze tc task of
        (tc', rejected) \<Rightarrow>
          (case Promise_all tc' tasks of
             (tc'', rejected') \<Rightarrow>
               (tc'', case rejected of Some reason \<Rightarrow> Some reason | None \<Rightarrow> rejected')))"

subsection \<open>Dependency recording\<close>

text \<open>
  Modelled from the spec: the three operations of the incremental store that the
  compiler calls. \<open>getFileDependencies(file)\<close> gives the files that \<open>file\<close> depends on, as
  known at the call; \<open>trackFileDependency(dep, src)\<close> and
  \<open>trackFileDependencies(deps, src)\<close> add to the files that \<open>src\<close> depends on.
\<close>

definition getFileDependencies :: "IncrementalDriver \<Rightarrow> SourceFile \<Rightarrow> SourceFile set" where
  "getFileDependencies driver f = driver f"

definition trackFileDependency ::
  "IncrementalDriver \<Rightarrow> SourceFile \<Rightarrow> SourceFile \<Rightarrow> IncrementalDriver" where
  "trackFileDependency driver dep src = driver(src := insert dep (driver src))"

definition trackFileDependencies ::
  "IncrementalDriver \<Rightarrow> SourceFile set \<Rightarrow> SourceFile \<Rightarrow> IncrementalDriver" where
  "trackFileDependencies driver deps src = driver(src := deps \<union> driver src)"

text \<open>The body of the loop over the compilation scopes.\<close>

definition recordScope :: "IncrementalDriver \<Rightarrow> CompilationScope \<Rightarrow> IncrementalDriver" where
  "recordScope driver scope =
     (let file = declarationSf scope;
          ngModuleFile = ngModuleSf scope;
          deps = getFileDependencies driver file;
          d1 = trackFileDependencies driver deps ngModuleFile;
          d2 = trackFileDependency d1 ngModuleFile file;
          d3 = fold (\<lambda>directive d.
                  (let dirSf = directiveFile directive;
                       d' = trackFileDependency d dirSf file
                   in if isComponent directive then trackFileDependencies d' deps dirSf else d'))
                (directives scope) d2
      in fold (\<lambda>pipe d. trackFileDependency d pipe file) (pipes scope) d3)"

definition recordNgModuleScopeDependencies :: "'u TraitCompiler \<Rightarrow> 'u TraitCompiler" where
  "recordNgModuleScopeDependencies tc =
     tc\<lparr>incrementalDriver :=
          fold (\<lambda>scope d. recordScope d scope) (scopeRegistry tc) (incrementalDriver tc)\<rparr>"

subsection \<open>Resolution\<close>

type_synonym ReexportMap = "string \<rightharpoonup> (string \<rightharpoonup> string \<times> string)"

text \<open>Lines 320 to 329: the re-exports of one result go to the table of the file.\<close>

definition mergeReexports :: "ReexportMap \<Rightarrow> string \<Rightarrow> Reexport list \<Rightarrow> ReexportMap" where
  "mergeReexports m fName rs =
     (let fileReexports = (case m fName of None \<Rightarrow> Map.empty | Some fr \<Rightarrow> fr)
      in m(fName \<mapsto>
            fold (\<lambda>reexport fr. fr(asAlias reexport \<mapsto> (fromModule reexport, symbolName reexport)))
              rs fileReexports))"

text \<open>The body of the inner loop of \<open>resolve\<close>, for one trait of the class.\<close>

definition resolveTrait ::
  "ClassDeclaration \<Rightarrow> 'u Trait \<Rightarrow> ReexportMap \<Rightarrow> Thrown + ('u Trait \<times> ReexportMap)" where
  "resolveTrait clazz trait m =
     (case state trait of
        SKIPPED \<Rightarrow> Inr (trait, m)
      | ERRORED \<Rightarrow> Inr (trait, m)
      | PENDING \<Rightarrow>
          Inl (JsError (''Resolving a trait that hasn't been analyzed: '' @ nameText clazz @
                        '' / '' @ constructorName (handler trait)))
      | RESOLVED \<Rightarrow> Inl (JsError ''Resolving an already resolved trait'')
      | ANALYZED \<Rightarrow>
          (case resolve (handler trait) of
             None \<Rightarrow> Inr (toResolved trait None, m)
           | Some handler_resolve \<Rightarrow>
               (case handler_resolve clazz (analysis trait) of
                  Inl err \<Rightarrow>
                    (case err of
                       FatalDiagnosticError d \<Rightarrow> Inr (toErrored trait [d], m)
                     | JsError msg \<Rightarrow> Inl err)
                | Inr result \<Rightarrow>
                    (let trait' =
                       (case rr_diagnostics result of
                          Some ds \<Rightarrow> toErrored trait ds
                        | None \<Rightarrow>
                            (case rr_data result of
                               Some d \<Rightarrow> toResolved trait (Some d)
                             | None \<Rightarrow> toResolved trait None))
                     in (case rr_reexports result of
                           Some rs \<Rightarrow>
                             Inr (trait', mergeReexports m (fileName (sourceFile clazz)) rs)
                         | None \<Rightarrow> Inr (trait', m))))))"

fun resolveTraits ::
  "ClassDeclaration \<Rightarrow> 'u Trait list \<Rightarrow> ReexportMap
     \<Rightarrow> 'u Trait list \<times> ReexportMap \<times> Thrown option" where
  "resolveTraits clazz [] m = ([], m, None)"
| "resolveTraits clazz (trait # ts) m =
     (case resolveTrait clazz trait m of
        Inl err \<Rightarrow> (trait # ts, m, Some err)
      | Inr (trait', m') \<Rightarrow>
          (case resolveTraits clazz ts m' of (ts', m'', thrown) \<Rightarrow> (trait' # ts', m'', thrown)))"

text \<open>
  The outer loop of \<open>resolve\<close>, over the keys of \<open>classes\<close> in the order of insertion,
  each with its record (a key stands once in a \<open>Map\<close>).
\<close>

fun resolveClasses ::
  "(ClassDeclaration \<times> 'u ClassRecord) list \<Rightarrow> ReexportMap
     \<Rightarrow> (ClassDeclaration \<times> 'u ClassRecord) list \<times> ReexportMap \<times> Thrown option" where
  "resolveClasses [] m = ([], m, None)"
| "resolveClasses ((clazz, record) # cs) m =
     (case resolveTraits clazz (traits record) m of
        (ts', m', Some err) \<Rightarrow> ((clazz, record\<lparr>traits := ts'\<rparr>) # cs, m', Some err)
      | (ts', m', None) \<Rightarrow>
          (case resolveClasses cs m' of
             (cs', m'', thrown) \<Rightarrow> ((clazz, record\<lparr>traits := ts'\<rparr>) # cs', m'', thrown)))"

definition TraitCompiler_resolve :: "'u TraitCompiler \<Rightarrow> 'u TraitCompiler \<times> Thrown option" where
  "TraitCompiler_resolve tc =
     (case resolveClasses (classes tc) (reexportMap tc) of
        (cs', m', Some err) \<Rightarrow> (tc\<lparr>classes := cs', reexportMap := m'\<rparr>, Some err)
      | (cs', m', None) \<Rightarrow>
          (recordNgModuleScopeDependencies (tc\<lparr>classes := cs', reexportMap := m'\<rparr>), None))"

subsection \<open>Compilation\<close>

text \<open>
  A declaration given to \<open>compile\<close>: the node itself and the node that
  \<open>ts.getOriginalNode\<close> finds for it; \<open>isNamedClassDeclaration\<close> holds of the nodes built
  by \<open>NamedClassDeclaration\<close>.
\<close>

datatype Node = NamedClassDeclaration ClassDeclaration | OtherNode nat

record Declaration =
  thisNode :: Node
  originalNode :: Node

definition pushUnique :: "CompileResult list \<Rightarrow> CompileResult \<Rightarrow> CompileResult list" where
  "pushUnique res result =
     (if \<not> list_ex (\<lambda>r. name r = name result) res then res @ [result] else res)"

text \<open>The loop of \<open>compile\<close> over the traits of the record.\<close>

fun compileTraits ::
  "ClassDeclaration \<Rightarrow> 'u Trait list \<Rightarrow> ConstantPool \<Rightarrow> CompileResult list
     \<Rightarrow> CompileResult list \<times> ConstantPool" where
  "compileTraits clazz [] constantPool res = (res, constantPool)"
| "compileTraits clazz (trait # ts) constantPool res =
     (if state trait \<noteq> RESOLVED then compileTraits clazz ts constantPool res
      else (case compile (handler trait) clazz (analysis trait) (resolution trait) constantPool of
              (compileMatchRes, constantPool') \<Rightarrow>
                compileTraits clazz ts constantPool'
                  (case compileMatchRes of
                     Array results \<Rightarrow> fold (\<lambda>result res. pushUnique res result) results res
                   | Single result \<Rightarrow> pushUnique res result)))"

text \<open>
  Modelled from the spec: \<open>addFields(declaration, results)\<close> of the declaration-file
  transform of a source file registers the fields under the declaration.
\<close>

definition addFields ::
  "DtsTransformRegistry \<Rightarrow> SourceFile \<Rightarrow> ClassDeclaration \<Rightarrow> CompileResult list
     \<Rightarrow> DtsTransformRegistry" where
  "addFields registry sf decl res =
     registry(sf \<mapsto> (case registry sf of None \<Rightarrow> Map.empty | Some t \<Rightarrow> t)(decl \<mapsto> res))"

definition TraitCompiler_compile ::
  "'u TraitCompiler \<Rightarrow> Declaration \<Rightarrow> ConstantPool
     \<Rightarrow> ('u TraitCompiler \<times> ConstantPool) \<times> CompileResult list option" where
  "TraitCompiler_compile tc clazz constantPool =
     (case (thisNode clazz, originalNode clazz) of
        (NamedClassDeclaration c, NamedClassDeclaration original) \<Rightarrow>
          (case map_of (classes tc) original of
             None \<Rightarrow> ((tc, constantPool), None)
           | Some record \<Rightarrow>
               (case compileTraits c (traits record) constantPool [] of
                  (res, constantPool') \<Rightarrow>
                    ((tc\<lparr>dtsTransforms :=
                           addFields (dtsTransforms tc) (sourceFile original) original res\<rparr>,
                      constantPool'),
                     if length res > 0 then Some res else None)))
      | _ \<Rightarrow> ((tc, constantPool), None))"

subsection \<open>The accessors\<close>

definition TraitCompiler_diagnostics :: "'u TraitCompiler \<Rightarrow> Diagnostic list" where
  "TraitCompiler_diagnostics tc =
     concat (map (\<lambda>(clazz, record).
        (case metaDiagnostics record of None \<Rightarrow> [] | Some ds \<Rightarrow> ds) @
        concat (map (\<lambda>trait.
           if state trait = ERRORED
           then (case diagnostics trait of None \<Rightarrow> [] | Some ds \<Rightarrow> ds) else [])
          (traits record)))
       (classes tc))"


section \<open>Notions of the statements and of the proofs\<close>

subsection \<open>Matching\<close>

text \<open>
  A handler matches a class when its detect step returns a result. A record is
  \<open>matched\<close> when it is as the loop leaves it after a match without collision: the two
  flags follow the traits, the traits are all of WEAK handlers or none is, and at most
  one is of a PRIMARY handler. It is \<open>collided\<close> when it is as the collision leaves it.
\<close>

definition isPrimaryTrait :: "'u Trait \<Rightarrow> bool" where
  "isPrimaryTrait t = (precedence (handler t) = PRIMARY)"

definition isWeakTrait :: "'u Trait \<Rightarrow> bool" where
  "isWeakTrait t = (precedence (handler t) = WEAK)"

definition matches :: "'u DecoratorHandler \<Rightarrow> ClassDeclaration \<Rightarrow> Decorator list option \<Rightarrow> bool" where
  "matches h clazz decorators = (detect h clazz decorators \<noteq> None)"

definition matched :: "'u ClassRecord \<Rightarrow> bool" where
  "matched r =
     (metaDiagnostics r = None \<and> traits r \<noteq> [] \<and>
      hasPrimaryHandler r = list_ex isPrimaryTrait (traits r) \<and>
      hasWeakHandlers r = list_all isWeakTrait (traits r) \<and>
      (hasWeakHandlers r \<or> list_all (\<lambda>t. \<not> isWeakTrait t) (traits r)) \<and>
      length (filter isPrimaryTrait (traits r)) \<le> 1)"

definition collided :: "nat \<Rightarrow> ClassDeclaration \<Rightarrow> 'u ClassRecord \<Rightarrow> bool" where
  "collided ec clazz r =
     (metaDiagnostics r = Some [incompatibleDecorators ec clazz] \<and> traits r = [])"

fun optMatched :: "'u ClassRecord option \<Rightarrow> bool" where
  "optMatched None = True"
| "optMatched (Some r) = matched r"

definition loopOutcome ::
  "nat \<Rightarrow> ClassDeclaration \<Rightarrow> ('u ClassRecord \<Rightarrow> bool)
     \<Rightarrow> ('u TraitCompiler \<times> 'u ClassRecord option) LoopControl \<Rightarrow> bool" where
  "loopOutcome ec clazz P res =
     (case res of
        Next (tc', ro') \<Rightarrow> (\<exists>r'. ro' = Some r' \<and> matched r' \<and> P r')
      | Return (tc', ro') \<Rightarrow> (\<exists>r'. ro' = Some r' \<and> collided ec clazz r'))"

text \<open>
  \<open>classes.has(clazz)\<close>, and the membership of a class in the set that the index
  \<open>fileToClasses\<close> has for a file. A state of the loop is \<open>stored\<close> when the map and the
  index hold the record of the loop, if there is one; a compiler \<open>grows\<close> into another
  when no class leaves the map or the index.
\<close>

definition hasClass :: "'u TraitCompiler \<Rightarrow> ClassDeclaration \<Rightarrow> bool" where
  "hasClass tc clazz = (map_of (classes tc) clazz \<noteq> None)"

definition inFileIndex :: "'u TraitCompiler \<Rightarrow> SourceFile \<Rightarrow> ClassDeclaration \<Rightarrow> bool" where
  "inFileIndex tc sf clazz = (case fileToClasses tc sf of None \<Rightarrow> False | Some s \<Rightarrow> clazz \<in> s)"

definition stored :: "ClassDeclaration \<Rightarrow> 'u TraitCompiler \<times> 'u ClassRecord option \<Rightarrow> bool" where
  "stored clazz st =
     (case st of (tc, ro) \<Rightarrow>
        (case ro of None \<Rightarrow> True
         | Some r \<Rightarrow> map_of (classes tc) clazz = Some r \<and> inFileIndex tc (sourceFile clazz) clazz))"

definition grows :: "'u TraitCompiler \<Rightarrow> 'u TraitCompiler \<Rightarrow> bool" where
  "grows tc tc' =
     ((\<forall>c. hasClass tc c \<longrightarrow> hasClass tc' c) \<and> (\<forall>sf c. inFileIndex tc sf c \<longrightarrow> inFileIndex tc' sf c))"

subsection \<open>Compilation\<close>

text \<open>
  The results that the compile steps of the RESOLVED traits return, one after the other
  (with the constant pool as each step left it), and the list that keeps the first
  result of each name and drops a later result of a name already there.
\<close>

fun resultsOf :: "CompileOutput \<Rightarrow> CompileResult list" where
  "resultsOf (Single result) = [result]"
| "resultsOf (Array results) = results"

fun compileOutputs ::
  "ClassDeclaration \<Rightarrow> 'u Trait list \<Rightarrow> ConstantPool \<Rightarrow> CompileResult list" where
  "compileOutputs clazz [] constantPool = []"
| "compileOutputs clazz (trait # ts) constantPool =
     (if state trait \<noteq> RESOLVED then compileOutputs clazz ts constantPool
      else (case compile (handler trait) clazz (analysis trait) (resolution trait) constantPool of
              (compileMatchRes, constantPool') \<Rightarrow>
                resultsOf compileMatchRes @ compileOutputs clazz ts constantPool'))"

fun dedupByName :: "CompileResult list \<Rightarrow> CompileResult list" where
  "dedupByName [] = []"
| "dedupByName (x # xs) = x # dedupByName (filter (\<lambda>y. name y \<noteq> name x) xs)"

subsection \<open>Resolution\<close>

text \<open>
  The states in which \<open>resolve\<close> leaves a trait, and the states in which \<open>resolve\<close> does
  not accept one.
\<close>

definition settled :: "'u Trait \<Rightarrow> bool" where
  "settled t = (state t = RESOLVED \<or> state t = ERRORED \<or> state t = SKIPPED)"

definition outOfOrder :: "'u Trait \<Rightarrow> bool" where
  "outOfOrder t = (state t = PENDING \<or> state t = RESOLVED)"

definition alreadyResolved :: Thrown where
  "alreadyResolved = JsError ''Resolving an already resolved trait''"

subsection \<open>Dependency recording\<close>

text \<open>
  An edge \<open>a \<rightarrow> b\<close> of the store: the file \<open>b\<close> depends on the file \<open>a\<close>, so that a change
  of \<open>a\<close> invalidates \<open>b\<close> (\<open>trackFileDependency(a, b)\<close> adds it).
\<close>

definition invalidates :: "IncrementalDriver \<Rightarrow> SourceFile \<Rightarrow> SourceFile \<Rightarrow> bool" where
  "invalidates driver a b = (a \<in> getFileDependencies driver b)"

definition componentFiles :: "ScopeDirective list \<Rightarrow> SourceFile set" where
  "componentFiles ds = directiveFile ` {dr \<in> set ds. isComponent dr}"

subsection \<open>The re-export table\<close>









subsection \<open>Analysis\<close>

text \<open>
  The preanalysis of a trait with a queue of promises, as the loop of \<open>analyzeClass\<close>
  computes it: \<open>null\<close> when the handler has no \<open>preanalyze\<close> or \<open>preanalyze\<close> returns no
  promise. \<open>statesOf\<close> lists the states of the traits of the record of a class.
\<close>

definition preanalysisOf :: "'u Trait \<Rightarrow> ClassDeclaration \<Rightarrow> Settlement option" where
  "preanalysisOf trait clazz =
     (case preanalyze (handler trait) of
        None \<Rightarrow> None
      | Some handler_preanalyze \<Rightarrow> handler_preanalyze clazz (metadata (detected trait)))"

definition statesOf :: "'u TraitCompiler \<Rightarrow> ClassDeclaration \<Rightarrow> TraitState list" where
  "statesOf tc clazz =
     (case map_of (classes tc) clazz of None \<Rightarrow> [] | Some cr \<Rightarrow> map state (traits cr))"

section \<open>Example states\<close>

text \<open>
  A class of app.ts and one of other.ts, handlers that match every class, and compilers
  built from them: the inputs at which the theorems below are instantiated.
\<close>

definition exampleClass :: ClassDeclaration where
  "exampleClass =
     \<lparr>nodeId = 1, nameText = ''AppCmp'', sourceFile = SourceFile ''app.ts'', exported = True,
      startPos = 10, width = 40\<rparr>"

definition exampleHandler :: "string \<Rightarrow> HandlerPrecedence \<Rightarrow> nat DecoratorHandler" where
  "exampleHandler n p =
     \<lparr>constructorName = n, precedence = p,
      detect = (\<lambda>clazz decorators. Some \<lparr>trigger = None, metadata = 0\<rparr>),
      preanalyze = None,
      analyze = (\<lambda>clazz m.
        Inr \<lparr>ao_analysis = Some m, ao_diagnostics = None, ao_factorySymbolName = None\<rparr>),
      resolve = None,
      compile = (\<lambda>clazz a r pool. (Single \<lparr>name = n, content = []\<rparr>, pool))\<rparr>"

definition exampleCompiler :: "nat DecoratorHandler list \<Rightarrow> nat TraitCompiler" where
  "exampleCompiler hs =
     \<lparr>handlers = hs, getDecoratorsOfDeclaration = (\<lambda>clazz. None),
      incrementalDriver = (\<lambda>f. {}), sourceToFactorySymbols = None, scopeRegistry = [],
      compileNonExportedClasses = False, dtsTransforms = Map.empty, classes = [],
      fileToClasses = Map.empty, reexportMap = Map.empty\<rparr>"

definition otherClass :: ClassDeclaration where
  "otherClass =
     \<lparr>nodeId = 2, nameText = ''OtherDir'', sourceFile = SourceFile ''other.ts'', exported = True,
      startPos = 0, width = 25\<rparr>"

definition collidingCompiler :: "nat TraitCompiler" where
  "collidingCompiler =
     (exampleCompiler [exampleHandler ''A'' PRIMARY, exampleHandler ''B'' PRIMARY])
       \<lparr>classes := [(otherClass,
           \<lparr>node = otherClass, traits = [], metaDiagnostics = None, hasWeakHandlers = False,
            hasPrimaryHandler = False\<rparr>)],
        fileToClasses := [SourceFile ''other.ts'' \<mapsto> {otherClass}]\<rparr>"

definition emittingTrait :: "TraitState \<Rightarrow> CompileOutput \<Rightarrow> nat Trait" where
  "emittingTrait s out =
     \<lparr>state = s,
      handler = (exampleHandler ''E'' DEFAULT)\<lparr>compile := (\<lambda>clazz a r pool. (out, pool))\<rparr>,
      detected = \<lparr>trigger = None, metadata = 0\<rparr>, analysis = Some 0, resolution = None,
      diagnostics = None\<rparr>"

definition field :: "string \<Rightarrow> string \<Rightarrow> CompileResult" where
  "field n c = \<lparr>name = n, content = c\<rparr>"

definition compiledCompiler :: "nat TraitCompiler" where
  "compiledCompiler =
     (exampleCompiler [])
       \<lparr>classes :=
          [(exampleClass,
            \<lparr>node = exampleClass,
             traits = [emittingTrait RESOLVED (Array [field ''x'' ''1'', field ''y'' ''2'', field ''x'' ''3'']),
                       emittingTrait SKIPPED (Single (field ''z'' ''4'')),
                       emittingTrait RESOLVED (Single (field ''y'' ''5''))],
             metaDiagnostics = None, hasWeakHandlers = False, hasPrimaryHandler = False\<rparr>),
           (otherClass,
            \<lparr>node = otherClass, traits = [emittingTrait ERRORED (Single (field ''w'' ''6''))],
             metaDiagnostics = None, hasWeakHandlers = False, hasPrimaryHandler = False\<rparr>)]\<rparr>"

definition declarationOf :: "ClassDeclaration \<Rightarrow> Declaration" where
  "declarationOf c = \<lparr>thisNode = NamedClassDeclaration c, originalNode = NamedClassDeclaration c\<rparr>"

definition unmatchedClass :: ClassDeclaration where
  "unmatchedClass =
     \<lparr>nodeId = 3, nameText = ''Plain'', sourceFile = SourceFile ''plain.ts'', exported = True,
      startPos = 5, width = 12\<rparr>"

definition pendingTrait :: "nat Trait" where
  "pendingTrait = Trait_pending (exampleHandler ''A'' PRIMARY) \<lparr>trigger = None, metadata = 0\<rparr>"

definition recordWith :: "nat Trait list \<Rightarrow> nat ClassRecord" where
  "recordWith ts =
     \<lparr>node = exampleClass, traits = ts, metaDiagnostics = None, hasWeakHandlers = False,
      hasPrimaryHandler = True\<rparr>"

definition compilerWith :: "nat Trait list \<Rightarrow> nat TraitCompiler" where
  "compilerWith ts =
     (exampleCompiler [exampleHandler ''A'' PRIMARY])\<lparr>classes := [(exampleClass, recordWith ts)]\<rparr>"

definition moduleFile :: SourceFile where "moduleFile = SourceFile ''app.module.ts''"

definition cmpFile :: SourceFile where "cmpFile = SourceFile ''cmp.ts''"

definition depFile :: SourceFile where "depFile = SourceFile ''dep.ts''"

definition pipeFile :: SourceFile where "pipeFile = SourceFile ''pipe.ts''"

definition scopeCompiler :: "SourceFile \<Rightarrow> nat TraitCompiler" where
  "scopeCompiler declFile =
     (exampleCompiler [])
       \<lparr>incrementalDriver := (\<lambda>f. {})(declFile := {depFile}),
        scopeRegistry :=
          [\<lparr>declarationSf = declFile, ngModuleSf = moduleFile,
            directives = [\<lparr>directiveFile = cmpFile, isComponent = True\<rparr>],
            pipes = [pipeFile]\<rparr>]\<rparr>"




definition badSelector :: Diagnostic where
  "badSelector =
     \<lparr>category = Error, code = - 992001, file' = SourceFile ''app.ts'', start = 10, length' = 5,
      messageText = ''bad selector''\<rparr>"

definition failingHandler :: "string \<Rightarrow> Thrown \<Rightarrow> nat DecoratorHandler" where
  "failingHandler n thrown = (exampleHandler n DEFAULT)\<lparr>analyze := (\<lambda>clazz m. Inl thrown)\<rparr>"

definition failingCompiler :: "Thrown \<Rightarrow> nat TraitCompiler" where
  "failingCompiler thrown =
     exampleCompiler [exampleHandler ''A'' PRIMARY, failingHandler ''F'' thrown,
       exampleHandler ''B'' DEFAULT]"

definition failingTrait :: "Thrown \<Rightarrow> nat Trait" where
  "failingTrait thrown = Trait_pending (failingHandler ''F'' thrown) \<lparr>trigger = None, metadata = 0\<rparr>"

text \<open>
  Handlers with a preanalysis that gives the promise \<open>promise\<close> (or none) and an analyze
  step with the result \<open>result\<close>; a compiler with five handlers: one that analyses at
  once, one whose deferred analysis throws a fatal diagnostic, one whose deferred
  analysis throws another error, one whose preanalysis is rejected, and one whose
  \<open>preanalyze\<close> returns no promise.
\<close>

definition succeeded :: "nat AnalysisOutput" where
  "succeeded = \<lparr>ao_analysis = Some 0, ao_diagnostics = None, ao_factorySymbolName = None\<rparr>"

definition preanalyzingHandler ::
  "string \<Rightarrow> Settlement option \<Rightarrow> Thrown + nat AnalysisOutput \<Rightarrow> nat DecoratorHandler" where
  "preanalyzingHandler n promise result =
     (exampleHandler n DEFAULT)
       \<lparr>preanalyze := Some (\<lambda>clazz m. promise), analyze := (\<lambda>clazz m. result)\<rparr>"

definition deferringCompiler :: "nat TraitCompiler" where
  "deferringCompiler =
     exampleCompiler
       [exampleHandler ''A'' PRIMARY,
        preanalyzingHandler ''F'' (Some Fulfils) (Inl (FatalDiagnosticError badSelector)),
        preanalyzingHandler ''J'' (Some Fulfils) (Inl (JsError ''boom'')),
        preanalyzingHandler ''R'' (Some (Rejects (JsError ''unreadable''))) (Inr succeeded),
        preanalyzingHandler ''U'' None (Inl (FatalDiagnosticError badSelector))]"

definition deferred :: "ClassDeclaration \<Rightarrow> nat \<Rightarrow> Settlement \<Rightarrow> DeferredAnalysis" where
  "deferred clazz i promise = \<lparr>deferredClass = clazz, deferredTrait = i, preanalysis = promise\<rparr>"

definition preanalyzedTrait :: "nat Trait" where
  "preanalyzedTrait =
     Trait_pending (preanalyzingHandler ''F'' (Some Fulfils) (Inl (FatalDiagnosticError badSelector)))
       \<lparr>trigger = None, metadata = 0\<rparr>"

section \<open>Properties of matching\<close>

lemma scanStep_None:
  "\<exists>tc' ro'. scanStep ec clazz decorators h (tc, None) = Next (tc', ro') \<and> optMatched ro' \<and>
     (matches h clazz decorators \<longrightarrow> (\<exists>r'. ro' = Some r' \<and>
         hasPrimaryHandler r' = (precedence h = PRIMARY) \<and>
         hasWeakHandlers r' = (precedence h = WEAK)))"
  by (auto simp: scanStep_def matches_def matched_def Let_def isPrimaryTrait_def isWeakTrait_def Trait_pending_def split: option.splits)

lemma scanStep_Some_Next:
  assumes "matched r" "scanStep ec clazz decorators h (tc, Some r) = Next (tc', ro')"
  shows "\<exists>r'. ro' = Some r' \<and> matched r' \<and>
           (hasPrimaryHandler r \<longrightarrow> hasPrimaryHandler r') \<and>
           (\<not> hasWeakHandlers r \<longrightarrow> \<not> hasWeakHandlers r') \<and>
           (matches h clazz decorators \<and> precedence h = PRIMARY \<longrightarrow> hasPrimaryHandler r') \<and>
           (matches h clazz decorators \<and> precedence h \<noteq> WEAK \<longrightarrow> \<not> hasWeakHandlers r')"
  using assms
  by (auto simp: scanStep_def acceptTrait_def matches_def matched_def Let_def isPrimaryTrait_def isWeakTrait_def list_all_iff list_ex_iff filter_empty_conv Trait_pending_def split: option.splits if_splits)

lemma scanStep_Some_Return:
  assumes "scanStep ec clazz decorators h (tc, Some r) = Return (tc', ro')"
  shows "\<exists>r'. ro' = Some r' \<and> collided ec clazz r'"
  using assms
  by (auto simp: scanStep_def acceptTrait_def collided_def Let_def split: option.splits if_splits)

lemma scanStep_Some_primary:
  assumes "matched r" "hasPrimaryHandler r" "matches h clazz decorators" "precedence h = PRIMARY"
  shows "\<exists>tc' r'. scanStep ec clazz decorators h (tc, Some r) = Return (tc', Some r') \<and> collided ec clazz r'"
  using assms
  by (auto simp: scanStep_def acceptTrait_def matches_def matched_def collided_def Let_def isPrimaryTrait_def isWeakTrait_def list_all_iff list_ex_iff split: option.splits)

lemma scanStep_Some_weak:
  assumes "\<not> hasWeakHandlers r" "precedence h = WEAK"
  shows "scanStep ec clazz decorators h (tc, Some r) = Next (tc, Some r)"
  using assms
  by (auto simp: scanStep_def Let_def split: option.splits)

lemma scanLoop_append:
  "scanLoop ec clazz decorators (xs @ ys) st =
     (case scanLoop ec clazz decorators xs st of
        Next st' \<Rightarrow> scanLoop ec clazz decorators ys st'
      | Return st' \<Rightarrow> Return st')"
  by (induction xs arbitrary: st) (auto split: LoopControl.splits)

lemma scanStep_cases:
  assumes "optMatched ro"
  shows "(\<exists>tc' ro'. scanStep ec clazz decorators h (tc, ro) = Next (tc', ro') \<and> optMatched ro' \<and>
            ((\<exists>r. ro = Some r \<and> hasPrimaryHandler r) \<or> matches h clazz decorators \<and> precedence h = PRIMARY
                \<longrightarrow> (\<exists>r'. ro' = Some r' \<and> hasPrimaryHandler r')) \<and>
            ((\<exists>r. ro = Some r \<and> \<not> hasWeakHandlers r) \<or> matches h clazz decorators \<and> precedence h \<noteq> WEAK
                \<longrightarrow> (\<exists>r'. ro' = Some r' \<and> \<not> hasWeakHandlers r'))) \<or>
         (\<exists>tc' r'. scanStep ec clazz decorators h (tc, ro) = Return (tc', Some r') \<and> collided ec clazz r')"
proof (cases ro)
  case None
  with scanStep_None [of ec clazz decorators h tc] show ?thesis by auto
next
  case (Some r)
  with assms have m: "matched r" by simp
  show ?thesis
  proof (cases "scanStep ec clazz decorators h (tc, Some r)")
    case (Next st')
    obtain tc' ro' where st': "st' = (tc', ro')" by (cases st')
    from scanStep_Some_Next [OF m Next [unfolded st']] Some Next st'
    show ?thesis by auto
  next
    case (Return st')
    obtain tc' ro' where st': "st' = (tc', ro')" by (cases st')
    from scanStep_Some_Return [OF Return [unfolded st']] Some Return st'
    show ?thesis by auto
  qed
qed

lemma scanLoop_matched:
  "optMatched ro \<Longrightarrow>
     (case scanLoop ec clazz decorators hs (tc, ro) of
        Next (tc', ro') \<Rightarrow> optMatched ro'
      | Return (tc', ro') \<Rightarrow> (\<exists>r'. ro' = Some r' \<and> collided ec clazz r'))"
proof (induction hs arbitrary: tc ro)
  case Nil
  then show ?case by simp
next
  case (Cons h hs)
  from scanStep_cases [OF Cons.prems, of ec clazz decorators h tc]
  show ?case
  proof (elim disjE exE conjE)
    fix tc' ro'
    assume "scanStep ec clazz decorators h (tc, ro) = Next (tc', ro')" "optMatched ro'"
    with Cons.IH [of ro' tc'] show ?thesis by simp
  next
    fix tc' r'
    assume "scanStep ec clazz decorators h (tc, ro) = Return (tc', Some r')" "collided ec clazz r'"
    then show ?thesis by simp
  qed
qed

lemma scanLoop_primary:
  "optMatched ro \<Longrightarrow>
   (\<exists>h\<in>set hs. matches h clazz decorators \<and> precedence h = PRIMARY) \<or>
     (\<exists>r. ro = Some r \<and> hasPrimaryHandler r) \<Longrightarrow>
   loopOutcome ec clazz hasPrimaryHandler (scanLoop ec clazz decorators hs (tc, ro))"
proof (induction hs arbitrary: tc ro)
  case Nil
  then show ?case by (auto simp: loopOutcome_def)
next
  case (Cons h hs)
  from scanStep_cases [OF Cons.prems(1), of ec clazz decorators h tc]
  show ?case
  proof (elim disjE exE conjE)
    fix tc' ro'
    assume st: "scanStep ec clazz decorators h (tc, ro) = Next (tc', ro')" and m: "optMatched ro'"
      and p: "(\<exists>r. ro = Some r \<and> hasPrimaryHandler r) \<or> matches h clazz decorators \<and> precedence h = PRIMARY
                \<longrightarrow> (\<exists>r'. ro' = Some r' \<and> hasPrimaryHandler r')"
    from Cons.prems(2) p
    have "(\<exists>h\<in>set hs. matches h clazz decorators \<and> precedence h = PRIMARY) \<or>
            (\<exists>r. ro' = Some r \<and> hasPrimaryHandler r)" by auto
    from Cons.IH [OF m this, of tc'] st show ?thesis by simp
  next
    fix tc' r'
    assume "scanStep ec clazz decorators h (tc, ro) = Return (tc', Some r')" "collided ec clazz r'"
    then show ?thesis by (simp add: loopOutcome_def)
  qed
qed

lemma scanLoop_nonweak:
  "optMatched ro \<Longrightarrow>
   (\<exists>h\<in>set hs. matches h clazz decorators \<and> precedence h \<noteq> WEAK) \<or>
     (\<exists>r. ro = Some r \<and> \<not> hasWeakHandlers r) \<Longrightarrow>
   loopOutcome ec clazz (\<lambda>r. \<not> hasWeakHandlers r) (scanLoop ec clazz decorators hs (tc, ro))"
proof (induction hs arbitrary: tc ro)
  case Nil
  then show ?case by (auto simp: loopOutcome_def)
next
  case (Cons h hs)
  from scanStep_cases [OF Cons.prems(1), of ec clazz decorators h tc]
  show ?case
  proof (elim disjE exE conjE)
    fix tc' ro'
    assume st: "scanStep ec clazz decorators h (tc, ro) = Next (tc', ro')" and m: "optMatched ro'"
      and p: "(\<exists>r. ro = Some r \<and> \<not> hasWeakHandlers r) \<or> matches h clazz decorators \<and> precedence h \<noteq> WEAK
                \<longrightarrow> (\<exists>r'. ro' = Some r' \<and> \<not> hasWeakHandlers r')"
    from Cons.prems(2) p
    have "(\<exists>h\<in>set hs. matches h clazz decorators \<and> precedence h \<noteq> WEAK) \<or>
            (\<exists>r. ro' = Some r \<and> \<not> hasWeakHandlers r)" by auto
    from Cons.IH [OF m this, of tc'] st show ?thesis by simp
  next
    fix tc' r'
    assume "scanStep ec clazz decorators h (tc, ro) = Return (tc', Some r')" "collided ec clazz r'"
    then show ?thesis by (simp add: loopOutcome_def)
  qed
qed

lemmas scan_defs = scanClassForTraits_def scanStep_def acceptTrait_def storeRecord_def
  addToFile_def Trait_pending_def Let_def

lemmas example_defs = exampleClass_def exampleHandler_def exampleCompiler_def

lemma scanClassForTraits_outcome:
  assumes "snd (scanClassForTraits ec tc clazz) = Some r"
  shows "matched r \<or> collided ec clazz r"
proof -
  let ?res = "scanLoop ec clazz (getDecoratorsOfDeclaration tc clazz) (handlers tc) (tc, None)"
  from assms have r: "snd (finish ?res) = Some r"
    by (simp add: scanClassForTraits_def Let_def split: if_splits)
  have "case ?res of Next (tc', ro') \<Rightarrow> optMatched ro'
        | Return (tc', ro') \<Rightarrow> (\<exists>r'. ro' = Some r' \<and> collided ec clazz r')"
    by (rule scanLoop_matched) simp
  with r show ?thesis by (cases ?res) auto
qed

text \<open>
  Claim C9. A record that matching returns with no meta-diagnostics has
  \<open>hasPrimaryHandler\<close> exactly when one of its traits comes from a PRIMARY handler, and
  \<open>hasWeakHandlers\<close> exactly when it has a trait and all its traits come from WEAK
  handlers.
\<close>

theorem flags_follow_traits:
  assumes "snd (scanClassForTraits ec tc clazz) = Some r" and "metaDiagnostics r = None"
  shows "(hasPrimaryHandler r \<longleftrightarrow> (\<exists>t\<in>set (traits r). precedence (handler t) = PRIMARY)) \<and>
         (hasWeakHandlers r \<longleftrightarrow>
            traits r \<noteq> [] \<and> (\<forall>t\<in>set (traits r). precedence (handler t) = WEAK))"
proof -
  from scanClassForTraits_outcome [OF assms(1)] assms(2) have "matched r"
    by (auto simp: collided_def)
  then show ?thesis
    by (auto simp: matched_def list_all_iff list_ex_iff isPrimaryTrait_def isWeakTrait_def)
qed

theorem flags_follow_traits_witness:
  "\<exists>r. snd (scanClassForTraits 1006
             (exampleCompiler [exampleHandler ''A'' WEAK, exampleHandler ''B'' WEAK])
             exampleClass) = Some r \<and>
       metaDiagnostics r = None \<and> hasWeakHandlers r \<and> \<not> hasPrimaryHandler r \<and> length (traits r) = 2 \<and>
       (hasPrimaryHandler r \<longleftrightarrow> (\<exists>t\<in>set (traits r). precedence (handler t) = PRIMARY)) \<and>
       (hasWeakHandlers r \<longleftrightarrow>
            traits r \<noteq> [] \<and> (\<forall>t\<in>set (traits r). precedence (handler t) = WEAK))"
proof -
  let ?tc = "exampleCompiler [exampleHandler ''A'' WEAK, exampleHandler ''B'' WEAK]"
  have "\<exists>r. snd (scanClassForTraits 1006 ?tc exampleClass) = Some r \<and>
       metaDiagnostics r = None \<and> hasWeakHandlers r \<and> \<not> hasPrimaryHandler r \<and> length (traits r) = 2"
    by (simp add: scan_defs example_defs)
  then obtain r where r: "snd (scanClassForTraits 1006 ?tc exampleClass) = Some r"
    "metaDiagnostics r = None" "hasWeakHandlers r" "\<not> hasPrimaryHandler r" "length (traits r) = 2"
    by blast
  from flags_follow_traits [OF r(1) r(2)] r show ?thesis by blast
qed

lemma incompatibleDecorators_anchor:
  "file' (incompatibleDecorators ec clazz) = sourceFile clazz \<and>
   start (incompatibleDecorators ec clazz) = startPos clazz \<and>
   length' (incompatibleDecorators ec clazz) = width clazz \<and>
   category (incompatibleDecorators ec clazz) = Error \<and>
   messageText (incompatibleDecorators ec clazz) = ''Two incompatible decorators on class''"
  by (simp add: incompatibleDecorators_def)

lemma scanLoop_second_primary:
  assumes pre: "\<exists>h1\<in>set pre. matches h1 clazz decorators \<and> precedence h1 = PRIMARY"
    and h2: "matches h2 clazz decorators" "precedence h2 = PRIMARY"
  shows "\<exists>tc' r. scanLoop ec clazz decorators (pre @ h2 # rest) (tc, None) = Return (tc', Some r) \<and>
           scanLoop ec clazz decorators (pre @ [h2]) (tc, None) = Return (tc', Some r) \<and>
           collided ec clazz r"
proof -
  have "loopOutcome ec clazz hasPrimaryHandler (scanLoop ec clazz decorators pre (tc, None))"
    using pre by (intro scanLoop_primary) auto
  then show ?thesis
  proof (cases "scanLoop ec clazz decorators pre (tc, None)")
    case (Next st)
    obtain tc1 ro1 where st: "st = (tc1, ro1)" by (cases st)
    from \<open>loopOutcome _ _ _ _\<close> Next st obtain r1
      where r1: "ro1 = Some r1" "matched r1" "hasPrimaryHandler r1"
      by (auto simp: loopOutcome_def)
    from scanStep_Some_primary [OF r1(2,3) h2, of ec tc1] obtain tc' r'
      where "scanStep ec clazz decorators h2 (tc1, Some r1) = Return (tc', Some r')"
        "collided ec clazz r'" by blast
    with Next st r1 show ?thesis by (simp add: scanLoop_append)
  next
    case (Return st)
    with \<open>loopOutcome _ _ _ _\<close> show ?thesis
      by (cases st) (auto simp: loopOutcome_def scanLoop_append)
  qed
qed

text \<open>
  Claim C1. The record that matching returns has at most one trait of a PRIMARY handler,
  and no trait at all once its meta-diagnostics are set. When the registry is
  \<open>pre @ h2 # rest\<close>, a PRIMARY handler of \<open>pre\<close> matches the class and the PRIMARY
  handler \<open>h2\<close> matches it too, the loop returns from its body: the record has no traits,
  its meta-diagnostics are the one diagnostic "Two incompatible decorators on class" at
  the file, start and width of the class, and the result is that of the registry
  \<open>pre @ [h2]\<close>, whatever the handlers of \<open>rest\<close> are.
\<close>

theorem primary_collision:
  "(snd (scanClassForTraits ec tc clazz) = Some r \<longrightarrow>
      length (filter (\<lambda>t. precedence (handler t) = PRIMARY) (traits r)) \<le> 1 \<and>
      (metaDiagnostics r \<noteq> None \<longrightarrow> traits r = [])) \<and>
   ((compileNonExportedClasses tc \<or> exported clazz) \<and> handlers tc = pre @ h2 # rest \<and>
    (\<exists>h1\<in>set pre. matches h1 clazz (getDecoratorsOfDeclaration tc clazz) \<and> precedence h1 = PRIMARY) \<and>
    matches h2 clazz (getDecoratorsOfDeclaration tc clazz) \<and> precedence h2 = PRIMARY \<longrightarrow>
      (\<exists>tc' r'. scanClassForTraits ec tc clazz = (tc', Some r') \<and>
         scanLoop ec clazz (getDecoratorsOfDeclaration tc clazz) (pre @ h2 # rest) (tc, None) =
           Return (tc', Some r') \<and>
         scanLoop ec clazz (getDecoratorsOfDeclaration tc clazz) (pre @ [h2]) (tc, None) =
           Return (tc', Some r') \<and>
         traits r' = [] \<and>
         metaDiagnostics r' = Some [incompatibleDecorators ec clazz] \<and>
         file' (incompatibleDecorators ec clazz) = sourceFile clazz \<and>
         start (incompatibleDecorators ec clazz) = startPos clazz \<and>
         length' (incompatibleDecorators ec clazz) = width clazz \<and>
         messageText (incompatibleDecorators ec clazz) = ''Two incompatible decorators on class''))"
proof (intro conjI impI)
  assume r: "snd (scanClassForTraits ec tc clazz) = Some r"
  from scanClassForTraits_outcome [OF r]
  show "length (filter (\<lambda>t. precedence (handler t) = PRIMARY) (traits r)) \<le> 1"
    by (auto simp: matched_def collided_def isPrimaryTrait_def [abs_def])
  assume "metaDiagnostics r \<noteq> None"
  with scanClassForTraits_outcome [OF r] show "traits r = []"
    by (auto simp: matched_def collided_def)
next
  let ?decs = "getDecoratorsOfDeclaration tc clazz"
  assume a: "(compileNonExportedClasses tc \<or> exported clazz) \<and> handlers tc = pre @ h2 # rest \<and>
    (\<exists>h1\<in>set pre. matches h1 clazz ?decs \<and> precedence h1 = PRIMARY) \<and>
    matches h2 clazz ?decs \<and> precedence h2 = PRIMARY"
  then have "\<exists>tc' r. scanLoop ec clazz ?decs (pre @ h2 # rest) (tc, None) = Return (tc', Some r) \<and>
           scanLoop ec clazz ?decs (pre @ [h2]) (tc, None) = Return (tc', Some r) \<and>
           collided ec clazz r"
    by (intro scanLoop_second_primary) auto
  then obtain tc' r' where
    l: "scanLoop ec clazz ?decs (pre @ h2 # rest) (tc, None) = Return (tc', Some r')"
       "scanLoop ec clazz ?decs (pre @ [h2]) (tc, None) = Return (tc', Some r')"
       "collided ec clazz r'" by blast
  from a l(1) have "scanClassForTraits ec tc clazz = (tc', Some r')"
    by (auto simp: scanClassForTraits_def Let_def)
  with l show "\<exists>tc' r'. scanClassForTraits ec tc clazz = (tc', Some r') \<and>
         scanLoop ec clazz ?decs (pre @ h2 # rest) (tc, None) = Return (tc', Some r') \<and>
         scanLoop ec clazz ?decs (pre @ [h2]) (tc, None) = Return (tc', Some r') \<and>
         traits r' = [] \<and>
         metaDiagnostics r' = Some [incompatibleDecorators ec clazz] \<and>
         file' (incompatibleDecorators ec clazz) = sourceFile clazz \<and>
         start (incompatibleDecorators ec clazz) = startPos clazz \<and>
         length' (incompatibleDecorators ec clazz) = width clazz \<and>
         messageText (incompatibleDecorators ec clazz) = ''Two incompatible decorators on class''"
    using incompatibleDecorators_anchor [of ec clazz] by (auto simp: collided_def)
qed

lemma scanLoop_drop_weak:
  assumes pre: "\<exists>h\<in>set pre. matches h clazz decorators \<and> precedence h \<noteq> WEAK"
    and w: "precedence w = WEAK"
  shows "scanLoop ec clazz decorators (pre @ w # post) (tc, None) =
         scanLoop ec clazz decorators (pre @ post) (tc, None)"
proof -
  have o: "loopOutcome ec clazz (\<lambda>r. \<not> hasWeakHandlers r) (scanLoop ec clazz decorators pre (tc, None))"
    using pre by (intro scanLoop_nonweak) auto
  show ?thesis
  proof (cases "scanLoop ec clazz decorators pre (tc, None)")
    case (Next st)
    obtain tc1 ro1 where st: "st = (tc1, ro1)" by (cases st)
    from o Next st obtain r1 where r1: "ro1 = Some r1" "\<not> hasWeakHandlers r1"
      by (auto simp: loopOutcome_def)
    from scanStep_Some_weak [OF r1(2) w, of ec clazz decorators tc1] Next st r1
    show ?thesis by (simp add: scanLoop_append)
  next
    case (Return st)
    then show ?thesis by (simp add: scanLoop_append)
  qed
qed

text \<open>
  Claim C3. When a handler that is not WEAK matches the class, the record that matching
  returns has no trait of a WEAK handler, wherever the WEAK handlers stand in the
  registry. A WEAK handler \<open>w\<close> that comes after a matching handler that is not WEAK
  leaves no trace: the loop over \<open>pre @ w # post\<close> ends as the loop over \<open>pre @ post\<close>.
\<close>

theorem weak_traits_give_way:
  "((\<exists>h\<in>set (handlers tc). matches h clazz (getDecoratorsOfDeclaration tc clazz) \<and> precedence h \<noteq> WEAK) \<and>
    snd (scanClassForTraits ec tc clazz) = Some r \<longrightarrow>
      (\<forall>t\<in>set (traits r). precedence (handler t) \<noteq> WEAK)) \<and>
   ((\<exists>h\<in>set pre. matches h clazz decorators \<and> precedence h \<noteq> WEAK) \<and> precedence w = WEAK \<longrightarrow>
      scanLoop ec clazz decorators (pre @ w # post) (tc, None) =
      scanLoop ec clazz decorators (pre @ post) (tc, None))"
proof (intro conjI impI)
  let ?decs = "getDecoratorsOfDeclaration tc clazz"
  let ?res = "scanLoop ec clazz ?decs (handlers tc) (tc, None)"
  assume a: "(\<exists>h\<in>set (handlers tc). matches h clazz ?decs \<and> precedence h \<noteq> WEAK) \<and>
    snd (scanClassForTraits ec tc clazz) = Some r"
  then have r: "snd (finish ?res) = Some r"
    by (simp add: scanClassForTraits_def Let_def split: if_splits)
  have "loopOutcome ec clazz (\<lambda>r. \<not> hasWeakHandlers r) ?res"
    using a by (intro scanLoop_nonweak) auto
  with r have "matched r \<and> \<not> hasWeakHandlers r \<or> traits r = []"
    by (cases ?res) (auto simp: loopOutcome_def collided_def)
  then show "\<forall>t\<in>set (traits r). precedence (handler t) \<noteq> WEAK"
    by (auto simp: matched_def list_all_iff isWeakTrait_def)
next
  assume "(\<exists>h\<in>set pre. matches h clazz decorators \<and> precedence h \<noteq> WEAK) \<and> precedence w = WEAK"
  then show "scanLoop ec clazz decorators (pre @ w # post) (tc, None) =
      scanLoop ec clazz decorators (pre @ post) (tc, None)"
    by (intro scanLoop_drop_weak) auto
qed

lemma grows_refl: "grows tc tc"
  by (simp add: grows_def)

lemma grows_trans: "grows a b \<Longrightarrow> grows b c \<Longrightarrow> grows a c"
  by (simp add: grows_def)

lemma scanStep_grows:
  "grows tc (fst (finish (scanStep ec clazz decorators h (tc, ro))))"
  by (auto simp: scanStep_def acceptTrait_def storeRecord_def addToFile_def grows_def hasClass_def
      inFileIndex_def Let_def AList.update_conv' split: option.splits)

lemma scanStep_stored:
  "stored clazz (tc, ro) \<Longrightarrow> stored clazz (finish (scanStep ec clazz decorators h (tc, ro)))"
  by (auto simp: scanStep_def acceptTrait_def storeRecord_def addToFile_def stored_def
      inFileIndex_def Let_def AList.update_conv' split: option.splits)

lemma scanLoop_grows_stored:
  "grows (fst st) (fst (finish (scanLoop ec clazz decorators hs st))) \<and>
   (stored clazz st \<longrightarrow> stored clazz (finish (scanLoop ec clazz decorators hs st)))"
proof (induction hs arbitrary: st)
  case Nil
  show ?case by (simp add: grows_refl)
next
  case (Cons h hs)
  obtain tc ro where st: "st = (tc, ro)" by (cases st)
  show ?case
  proof (cases "scanStep ec clazz decorators h (tc, ro)")
    case (Next st')
    from scanStep_grows [of tc ec clazz decorators h ro] scanStep_stored [of clazz tc ro ec decorators h]
      Next Cons.IH [of st'] st
    show ?thesis by (auto intro: grows_trans)
  next
    case (Return st')
    from scanStep_grows [of tc ec clazz decorators h ro] scanStep_stored [of clazz tc ro ec decorators h]
      Return st
    show ?thesis by auto
  qed
qed

text \<open>
  Claim C10. Matching removes nothing: a class that is in the map of records or in the
  index of a file before the loop over any list of handlers, from any state, is there
  after it, and so for \<open>scanClassForTraits\<close>. When \<open>scanClassForTraits\<close> returns a record
  (also one of a collision, with meta-diagnostics and no traits) the map holds that very
  record at the class and the index of the file of the class holds the class.
\<close>

theorem matching_never_removes:
  "(\<forall>c. hasClass tc c \<longrightarrow> hasClass (fst (finish (scanLoop ec clazz decorators hs (tc, ro)))) c) \<and>
   (\<forall>sf c. inFileIndex tc sf c \<longrightarrow>
      inFileIndex (fst (finish (scanLoop ec clazz decorators hs (tc, ro)))) sf c) \<and>
   (\<forall>c. hasClass tc c \<longrightarrow> hasClass (fst (scanClassForTraits ec tc clazz)) c) \<and>
   (\<forall>sf c. inFileIndex tc sf c \<longrightarrow> inFileIndex (fst (scanClassForTraits ec tc clazz)) sf c) \<and>
   (\<forall>r. snd (scanClassForTraits ec tc clazz) = Some r \<longrightarrow>
      map_of (classes (fst (scanClassForTraits ec tc clazz))) clazz = Some r \<and>
      hasClass (fst (scanClassForTraits ec tc clazz)) clazz \<and>
      inFileIndex (fst (scanClassForTraits ec tc clazz)) (sourceFile clazz) clazz)"
proof -
  have a: "grows tc (fst (finish (scanLoop ec clazz decorators hs (tc, ro))))"
    using scanLoop_grows_stored [of "(tc, ro)" ec clazz decorators hs] by simp
  have b: "grows tc (fst (scanClassForTraits ec tc clazz))"
    using scanLoop_grows_stored [of "(tc, None)" ec clazz "getDecoratorsOfDeclaration tc clazz" "handlers tc"]
    by (simp add: scanClassForTraits_def Let_def grows_refl)
  have c: "stored clazz (scanClassForTraits ec tc clazz)"
    using scanLoop_grows_stored [of "(tc, None)" ec clazz "getDecoratorsOfDeclaration tc clazz" "handlers tc"]
    by (simp add: scanClassForTraits_def Let_def stored_def)
  have d: "\<forall>r. snd (scanClassForTraits ec tc clazz) = Some r \<longrightarrow>
      map_of (classes (fst (scanClassForTraits ec tc clazz))) clazz = Some r \<and>
      hasClass (fst (scanClassForTraits ec tc clazz)) clazz \<and>
      inFileIndex (fst (scanClassForTraits ec tc clazz)) (sourceFile clazz) clazz"
    using c by (cases "scanClassForTraits ec tc clazz") (auto simp: stored_def hasClass_def)
  from a b d show ?thesis unfolding grows_def by blast
qed

theorem primary_collision_witness:
  "\<exists>tc' r. scanClassForTraits 1006
       (exampleCompiler [exampleHandler ''A'' PRIMARY, exampleHandler ''B'' PRIMARY,
          exampleHandler ''C'' DEFAULT]) exampleClass = (tc', Some r) \<and>
     scanLoop 1006 exampleClass None ([exampleHandler ''A'' PRIMARY] @ [exampleHandler ''B'' PRIMARY])
       (exampleCompiler [exampleHandler ''A'' PRIMARY, exampleHandler ''B'' PRIMARY,
          exampleHandler ''C'' DEFAULT], None) = Return (tc', Some r) \<and>
     traits r = [] \<and>
     metaDiagnostics r = Some [incompatibleDecorators 1006 exampleClass] \<and>
     length (filter (\<lambda>t. precedence (handler t) = PRIMARY) (traits r)) \<le> 1"
proof -
  let ?A = "exampleHandler ''A'' PRIMARY" and ?B = "exampleHandler ''B'' PRIMARY"
    and ?C = "exampleHandler ''C'' DEFAULT"
  let ?tc = "exampleCompiler [?A, ?B, ?C]"
  have hyp: "(compileNonExportedClasses ?tc \<or> exported exampleClass) \<and>
      handlers ?tc = [?A] @ ?B # [?C] \<and>
      (\<exists>h1\<in>set [?A]. matches h1 exampleClass (getDecoratorsOfDeclaration ?tc exampleClass) \<and>
         precedence h1 = PRIMARY) \<and>
      matches ?B exampleClass (getDecoratorsOfDeclaration ?tc exampleClass) \<and> precedence ?B = PRIMARY"
    by (simp add: example_defs matches_def)
  have decs: "getDecoratorsOfDeclaration ?tc exampleClass = None"
    by (simp add: exampleCompiler_def)
  from primary_collision [THEN conjunct2, rule_format, OF hyp, of 1006] obtain tc' r
    where r: "scanClassForTraits 1006 ?tc exampleClass = (tc', Some r)"
      "scanLoop 1006 exampleClass (getDecoratorsOfDeclaration ?tc exampleClass) ([?A] @ [?B]) (?tc, None)
         = Return (tc', Some r)"
      "traits r = []" "metaDiagnostics r = Some [incompatibleDecorators 1006 exampleClass]"
    by blast
  from r(1) have "snd (scanClassForTraits 1006 ?tc exampleClass) = Some r" by simp
  from primary_collision [THEN conjunct1, rule_format, OF this]
  have "length (filter (\<lambda>t. precedence (handler t) = PRIMARY) (traits r)) \<le> 1" by simp
  with r decs show ?thesis by auto
qed

theorem weak_traits_give_way_witness:
  "(\<exists>r. snd (scanClassForTraits 1006
        (exampleCompiler [exampleHandler ''W'' WEAK, exampleHandler ''P'' PRIMARY]) exampleClass) = Some r \<and>
      map (\<lambda>t. constructorName (handler t)) (traits r) = [''P''] \<and>
      list_all (\<lambda>t. precedence (handler t) \<noteq> WEAK) (traits r)) \<and>
   scanLoop 1006 exampleClass None
     ([exampleHandler ''P'' PRIMARY] @ exampleHandler ''W'' WEAK # [exampleHandler ''D'' DEFAULT])
     (exampleCompiler [], None) =
   scanLoop 1006 exampleClass None
     ([exampleHandler ''P'' PRIMARY] @ [exampleHandler ''D'' DEFAULT])
     (exampleCompiler [], None)"
proof -
  let ?W = "exampleHandler ''W'' WEAK" and ?P = "exampleHandler ''P'' PRIMARY"
    and ?D = "exampleHandler ''D'' DEFAULT"
  let ?tc = "exampleCompiler [?W, ?P]"
  have "\<exists>r. snd (scanClassForTraits 1006 ?tc exampleClass) = Some r \<and>
      map (\<lambda>t. constructorName (handler t)) (traits r) = [''P'']"
    by (simp add: scan_defs example_defs)
  then obtain r where r: "snd (scanClassForTraits 1006 ?tc exampleClass) = Some r"
    "map (\<lambda>t. constructorName (handler t)) (traits r) = [''P'']" by (elim exE conjE)
  have m: "\<exists>h\<in>set (handlers ?tc). matches h exampleClass (getDecoratorsOfDeclaration ?tc exampleClass) \<and>
      precedence h \<noteq> WEAK"
    by (simp add: example_defs matches_def)
  from weak_traits_give_way [THEN conjunct1, rule_format, OF conjI [OF m r(1)]]
  have 1: "list_all (\<lambda>t. precedence (handler t) \<noteq> WEAK) (traits r)"
    by (simp add: list_all_iff)
  have h2: "(\<exists>h\<in>set [?P]. matches h exampleClass None \<and> precedence h \<noteq> WEAK) \<and> precedence ?W = WEAK"
    by (simp add: example_defs matches_def)
  have 2: "scanLoop 1006 exampleClass None ([?P] @ ?W # [?D]) (exampleCompiler [], None) =
           scanLoop 1006 exampleClass None ([?P] @ [?D]) (exampleCompiler [], None)"
    by (rule weak_traits_give_way [THEN conjunct2, rule_format, OF h2])
  from r 1 have "\<exists>r. snd (scanClassForTraits 1006 ?tc exampleClass) = Some r \<and>
      map (\<lambda>t. constructorName (handler t)) (traits r) = [''P''] \<and>
      list_all (\<lambda>t. precedence (handler t) \<noteq> WEAK) (traits r)"
    by (intro exI [of _ r]) simp
  with 2 show ?thesis by (intro conjI)
qed

theorem matching_never_removes_witness:
  "\<exists>r. snd (scanClassForTraits 1006 collidingCompiler exampleClass) = Some r \<and>
     metaDiagnostics r \<noteq> None \<and> traits r = [] \<and>
     hasClass collidingCompiler otherClass \<and>
     inFileIndex collidingCompiler (SourceFile ''other.ts'') otherClass \<and>
     hasClass (fst (scanClassForTraits 1006 collidingCompiler exampleClass)) otherClass \<and>
     inFileIndex (fst (scanClassForTraits 1006 collidingCompiler exampleClass))
       (SourceFile ''other.ts'') otherClass \<and>
     map_of (classes (fst (scanClassForTraits 1006 collidingCompiler exampleClass))) exampleClass = Some r \<and>
     hasClass (fst (scanClassForTraits 1006 collidingCompiler exampleClass)) exampleClass \<and>
     inFileIndex (fst (scanClassForTraits 1006 collidingCompiler exampleClass))
       (sourceFile exampleClass) exampleClass"
proof -
  have "\<exists>r. snd (scanClassForTraits 1006 collidingCompiler exampleClass) = Some r \<and>
     metaDiagnostics r \<noteq> None \<and> traits r = []"
    by (simp add: scan_defs example_defs collidingCompiler_def otherClass_def)
  then obtain r where r: "snd (scanClassForTraits 1006 collidingCompiler exampleClass) = Some r"
    "metaDiagnostics r \<noteq> None" "traits r = []" by blast
  have h: "hasClass collidingCompiler otherClass"
    "inFileIndex collidingCompiler (SourceFile ''other.ts'') otherClass"
    by (simp_all add: hasClass_def inFileIndex_def collidingCompiler_def)
  from matching_never_removes [of collidingCompiler 1006 exampleClass None "[]" None] h r
  show ?thesis by blast
qed

section \<open>Properties of compilation\<close>

lemma pushUnique_new: "name x \<notin> name ` set res \<Longrightarrow> pushUnique res x = res @ [x]"
  by (simp add: pushUnique_def list_ex_iff) (auto simp: image_iff)

lemma pushUnique_old: "name x \<in> name ` set res \<Longrightarrow> pushUnique res x = res"
  by (simp add: pushUnique_def list_ex_iff) (auto simp: image_iff)

lemma pushUnique_fold:
  "fold (\<lambda>result res. pushUnique res result) xs res =
     res @ dedupByName (filter (\<lambda>y. name y \<notin> name ` set res) xs)"
proof (induction xs arbitrary: res)
  case Nil
  show ?case by simp
next
  case (Cons x xs)
  show ?case
  proof (cases "name x \<in> name ` set res")
    case True
    then have "pushUnique res x = res" by (rule pushUnique_old)
    with True Cons.IH [of res] show ?thesis by simp
  next
    case False
    then have p: "pushUnique res x = res @ [x]" by (rule pushUnique_new)
    have "filter (\<lambda>y. name y \<notin> name ` set (res @ [x])) xs =
          filter (\<lambda>y. name y \<noteq> name x) (filter (\<lambda>y. name y \<notin> name ` set res) xs)"
      by (auto intro: filter_cong)
    with False p Cons.IH [of "res @ [x]"] show ?thesis by simp
  qed
qed

lemma compileTraits_fold:
  "fst (compileTraits clazz ts constantPool res) =
     fold (\<lambda>result res. pushUnique res result) (compileOutputs clazz ts constantPool) res"
proof (induction ts arbitrary: constantPool res)
  case Nil
  show ?case by simp
next
  case (Cons trait ts)
  show ?case
  proof (cases "state trait = RESOLVED")
    case False
    with Cons.IH show ?thesis by simp
  next
    case True
    obtain out pool' where c: "compile (handler trait) clazz (analysis trait) (resolution trait) constantPool = (out, pool')"
      by (cases "compile (handler trait) clazz (analysis trait) (resolution trait) constantPool")
    with True Cons.IH show ?thesis by (cases out) simp_all
  qed
qed

lemma compileTraits_dedup:
  "fst (compileTraits clazz ts constantPool []) = dedupByName (compileOutputs clazz ts constantPool)"
  by (simp add: compileTraits_fold pushUnique_fold)

lemma names_dedupByName: "name ` set (dedupByName xs) \<subseteq> name ` set xs"
  by (induction xs rule: dedupByName.induct) auto

lemma distinct_dedupByName: "distinct (map name (dedupByName xs))"
proof (induction xs rule: dedupByName.induct)
  case 1
  show ?case by simp
next
  case (2 x xs)
  from names_dedupByName [of "filter (\<lambda>y. name y \<noteq> name x) xs"]
  have "name x \<notin> name ` set (dedupByName (filter (\<lambda>y. name y \<noteq> name x) xs))" by auto
  with 2 show ?case by simp
qed

lemma TraitCompiler_compile_record:
  assumes "thisNode decl = NamedClassDeclaration c" "originalNode decl = NamedClassDeclaration original"
    "map_of (classes tc) original = Some record"
  shows "TraitCompiler_compile tc decl constantPool =
     ((tc\<lparr>dtsTransforms := addFields (dtsTransforms tc) (sourceFile original) original
             (dedupByName (compileOutputs c (traits record) constantPool))\<rparr>,
       snd (compileTraits c (traits record) constantPool [])),
      if dedupByName (compileOutputs c (traits record) constantPool) = [] then None
      else Some (dedupByName (compileOutputs c (traits record) constantPool)))"
proof (cases "compileTraits c (traits record) constantPool []")
  case (Pair res pool')
  with compileTraits_dedup [of c "traits record" constantPool]
  have "res = dedupByName (compileOutputs c (traits record) constantPool)" by simp
  with Pair assms show ?thesis by (simp add: TraitCompiler_compile_def)
qed

lemma TraitCompiler_compile_Some:
  assumes "snd (TraitCompiler_compile tc decl constantPool) = Some res"
  shows "\<exists>c original record. thisNode decl = NamedClassDeclaration c \<and>
     originalNode decl = NamedClassDeclaration original \<and> map_of (classes tc) original = Some record \<and>
     res = dedupByName (compileOutputs c (traits record) constantPool)"
proof -
  from assms obtain c original cr where
    a: "thisNode decl = NamedClassDeclaration c" "originalNode decl = NamedClassDeclaration original"
       "map_of (classes tc) original = Some cr"
    by (auto simp: TraitCompiler_compile_def split: Node.splits option.splits prod.splits)
  from TraitCompiler_compile_record [OF a, of constantPool] assms a show ?thesis
    by (auto split: if_splits)
qed

text \<open>
  Claim C5. A list that \<open>compile\<close> returns has no two results of the same name: it is
  the list of the results that the compile steps of the RESOLVED traits return, in their
  order, in which a result whose name an earlier result has is dropped and the earlier
  one is kept.
\<close>

theorem compile_keeps_first_of_each_name:
  "(snd (TraitCompiler_compile tc decl constantPool) = Some res \<longrightarrow>
      distinct (map name res) \<and>
      (\<exists>c original record. thisNode decl = NamedClassDeclaration c \<and>
         originalNode decl = NamedClassDeclaration original \<and>
         map_of (classes tc) original = Some record \<and>
         res = dedupByName (compileOutputs c (traits record) constantPool)))"
proof
  assume a: "snd (TraitCompiler_compile tc decl constantPool) = Some res"
  from TraitCompiler_compile_Some [OF a] distinct_dedupByName
  show "distinct (map name res) \<and>
      (\<exists>c original record. thisNode decl = NamedClassDeclaration c \<and>
         originalNode decl = NamedClassDeclaration original \<and>
         map_of (classes tc) original = Some record \<and>
         res = dedupByName (compileOutputs c (traits record) constantPool))"
    by auto
qed

text \<open>
  Claim C6. \<open>compile\<close> returns null and changes nothing when the original node of the
  declaration has no record. When the declaration and its original node are named
  class declarations and the original node has a record, it returns null if the
  deduplicated results are empty and their list otherwise, and in both cases the
  declaration-file transform of the file of the original node holds these results at the
  original node.
\<close>

theorem compile_result_and_registration:
  "((\<forall>original. originalNode decl = NamedClassDeclaration original \<longrightarrow>
        map_of (classes tc) original = None) \<longrightarrow>
      TraitCompiler_compile tc decl constantPool = ((tc, constantPool), None)) \<and>
   (thisNode decl = NamedClassDeclaration c \<and> originalNode decl = NamedClassDeclaration original \<and>
    map_of (classes tc) original = Some cr \<longrightarrow>
      snd (TraitCompiler_compile tc decl constantPool) =
        (if dedupByName (compileOutputs c (traits cr) constantPool) = [] then None
         else Some (dedupByName (compileOutputs c (traits cr) constantPool))) \<and>
      (\<exists>transform.
         dtsTransforms (fst (fst (TraitCompiler_compile tc decl constantPool))) (sourceFile original) =
           Some transform \<and>
         transform original = Some (dedupByName (compileOutputs c (traits cr) constantPool))))"
proof (intro conjI impI)
  assume "\<forall>original. originalNode decl = NamedClassDeclaration original \<longrightarrow>
        map_of (classes tc) original = None"
  then show "TraitCompiler_compile tc decl constantPool = ((tc, constantPool), None)"
    by (auto simp: TraitCompiler_compile_def split: Node.splits option.splits)
next
  assume a: "thisNode decl = NamedClassDeclaration c \<and>
    originalNode decl = NamedClassDeclaration original \<and> map_of (classes tc) original = Some cr"
  then have e: "TraitCompiler_compile tc decl constantPool =
     ((tc\<lparr>dtsTransforms := addFields (dtsTransforms tc) (sourceFile original) original
             (dedupByName (compileOutputs c (traits cr) constantPool))\<rparr>,
       snd (compileTraits c (traits cr) constantPool [])),
      if dedupByName (compileOutputs c (traits cr) constantPool) = [] then None
      else Some (dedupByName (compileOutputs c (traits cr) constantPool)))"
    by (intro TraitCompiler_compile_record) auto
  show "snd (TraitCompiler_compile tc decl constantPool) =
        (if dedupByName (compileOutputs c (traits cr) constantPool) = [] then None
         else Some (dedupByName (compileOutputs c (traits cr) constantPool)))"
    by (simp add: e)
  show "\<exists>transform.
         dtsTransforms (fst (fst (TraitCompiler_compile tc decl constantPool))) (sourceFile original) =
           Some transform \<and>
         transform original = Some (dedupByName (compileOutputs c (traits cr) constantPool))"
    by (simp add: e addFields_def)
qed

lemmas compile_example_defs = compiledCompiler_def exampleCompiler_def exampleClass_def otherClass_def
  emittingTrait_def exampleHandler_def field_def declarationOf_def

theorem compile_keeps_first_of_each_name_witness:
  "snd (TraitCompiler_compile compiledCompiler (declarationOf exampleClass) (ConstantPool [])) =
     Some [field ''x'' ''1'', field ''y'' ''2''] \<and>
   distinct (map name [field ''x'' ''1'', field ''y'' ''2''])"
proof -
  have c: "snd (TraitCompiler_compile compiledCompiler (declarationOf exampleClass) (ConstantPool [])) =
     Some [field ''x'' ''1'', field ''y'' ''2'']"
    by (simp add: TraitCompiler_compile_def pushUnique_def compile_example_defs)
  from compile_keeps_first_of_each_name [rule_format, OF c] c show ?thesis by simp
qed

theorem compile_result_and_registration_witness:
  "TraitCompiler_compile compiledCompiler (declarationOf unmatchedClass) (ConstantPool []) =
     ((compiledCompiler, ConstantPool []), None) \<and>
   snd (TraitCompiler_compile compiledCompiler (declarationOf otherClass) (ConstantPool [])) = None \<and>
   (\<exists>transform.
      dtsTransforms (fst (fst (TraitCompiler_compile compiledCompiler (declarationOf otherClass)
         (ConstantPool [])))) (SourceFile ''other.ts'') = Some transform \<and>
      transform otherClass = Some []) \<and>
   snd (TraitCompiler_compile compiledCompiler (declarationOf exampleClass) (ConstantPool [])) =
     Some [field ''x'' ''1'', field ''y'' ''2''] \<and>
   (\<exists>transform.
      dtsTransforms (fst (fst (TraitCompiler_compile compiledCompiler (declarationOf exampleClass)
         (ConstantPool [])))) (SourceFile ''app.ts'') = Some transform \<and>
      transform exampleClass = Some [field ''x'' ''1'', field ''y'' ''2''])"
proof -
  let ?pool = "ConstantPool []"
  have none: "\<forall>original. originalNode (declarationOf unmatchedClass) = NamedClassDeclaration original \<longrightarrow>
      map_of (classes compiledCompiler) original = None"
    by (simp add: compile_example_defs unmatchedClass_def)
  have other: "thisNode (declarationOf otherClass) = NamedClassDeclaration otherClass \<and>
      originalNode (declarationOf otherClass) = NamedClassDeclaration otherClass \<and>
      map_of (classes compiledCompiler) otherClass = Some (snd (classes compiledCompiler ! 1))"
    by (simp add: compile_example_defs)
  have app: "thisNode (declarationOf exampleClass) = NamedClassDeclaration exampleClass \<and>
      originalNode (declarationOf exampleClass) = NamedClassDeclaration exampleClass \<and>
      map_of (classes compiledCompiler) exampleClass = Some (snd (classes compiledCompiler ! 0))"
    by (simp add: compile_example_defs)
  have o: "dedupByName (compileOutputs otherClass (traits (snd (classes compiledCompiler ! 1))) ?pool) = []"
    by (simp add: compile_example_defs)
  have a: "dedupByName (compileOutputs exampleClass (traits (snd (classes compiledCompiler ! 0))) ?pool) =
      [field ''x'' ''1'', field ''y'' ''2'']"
    by (simp add: compile_example_defs)
  have sf: "sourceFile otherClass = SourceFile ''other.ts''" "sourceFile exampleClass = SourceFile ''app.ts''"
    by (simp_all add: compile_example_defs)
  from compile_result_and_registration [THEN conjunct1, THEN mp, OF none, of ?pool]
    compile_result_and_registration [THEN conjunct2, THEN mp, OF other, of ?pool]
    compile_result_and_registration [THEN conjunct2, THEN mp, OF app, of ?pool]
  show ?thesis unfolding o a sf by simp
qed

section \<open>Properties of resolution\<close>

lemma resolveTrait_Inl:
  "resolveTrait clazz t m = Inl e \<Longrightarrow> \<exists>msg. e = JsError msg"
  by (auto simp: resolveTrait_def Let_def split: TraitState.splits option.splits sum.splits Thrown.splits)

lemma resolveTrait_Inr:
  "resolveTrait clazz t m = Inr (t', m') \<Longrightarrow> settled t' \<and> \<not> outOfOrder t"
  by (auto simp: resolveTrait_def Let_def settled_def outOfOrder_def toResolved_def toErrored_def
      split: TraitState.splits option.splits sum.splits Thrown.splits)

lemma resolveTraits_thrown:
  "snd (snd (resolveTraits clazz ts m)) = Some e \<Longrightarrow> \<exists>msg. e = JsError msg"
proof (induction ts arbitrary: m)
  case Nil
  then show ?case by simp
next
  case (Cons t ts)
  show ?case
  proof (cases "resolveTrait clazz t m")
    case (Inl err)
    with Cons.prems resolveTrait_Inl [OF Inl] show ?thesis by simp
  next
    case (Inr p)
    obtain t' m' where p: "p = (t', m')" by (cases p)
    with Inr Cons.prems Cons.IH [of m'] show ?thesis by (simp split: prod.splits)
  qed
qed

lemma resolveTraits_outOfOrder:
  "\<exists>t\<in>set ts. outOfOrder t \<Longrightarrow> \<exists>msg. snd (snd (resolveTraits clazz ts m)) = Some (JsError msg)"
proof (induction ts arbitrary: m)
  case Nil
  then show ?case by simp
next
  case (Cons t ts)
  show ?case
  proof (cases "resolveTrait clazz t m")
    case (Inl err)
    with resolveTrait_Inl [OF Inl] show ?thesis by auto
  next
    case (Inr p)
    obtain t' m' where p: "p = (t', m')" by (cases p)
    from resolveTrait_Inr [OF Inr [unfolded p]] Cons.prems have "\<exists>t\<in>set ts. outOfOrder t" by auto
    from Cons.IH [OF this, of m'] Inr p show ?thesis by (auto split: prod.splits)
  qed
qed

lemma resolveTraits_settled:
  "resolveTraits clazz ts m = (ts', m', None) \<Longrightarrow> \<forall>t\<in>set ts'. settled t"
proof (induction ts arbitrary: m ts' m')
  case Nil
  then show ?case by simp
next
  case (Cons t ts)
  show ?case
  proof (cases "resolveTrait clazz t m")
    case (Inl err)
    with Cons.prems show ?thesis by simp
  next
    case (Inr p)
    obtain t1 m1 where p: "p = (t1, m1)" by (cases p)
    obtain ts2 m2 e2 where r: "resolveTraits clazz ts m1 = (ts2, m2, e2)"
      by (cases "resolveTraits clazz ts m1")
    with Inr p Cons.prems have "ts' = t1 # ts2" "e2 = None" by simp_all
    with Cons.IH [of m1 ts2 m2] r resolveTrait_Inr [OF Inr [unfolded p]] show ?thesis by simp
  qed
qed

lemma resolveClasses_thrown:
  "snd (snd (resolveClasses cs m)) = Some e \<Longrightarrow> \<exists>msg. e = JsError msg"
proof (induction cs arbitrary: m)
  case Nil
  then show ?case by simp
next
  case (Cons c cs)
  obtain clazz cr where c: "c = (clazz, cr)" by (cases c)
  obtain ts1 m1 e1 where r: "resolveTraits clazz (traits cr) m = (ts1, m1, e1)"
    by (cases "resolveTraits clazz (traits cr) m")
  show ?case
  proof (cases e1)
    case None
    with Cons.prems c r Cons.IH [of m1] show ?thesis by (simp split: prod.splits)
  next
    case (Some err)
    with Cons.prems c r resolveTraits_thrown [of clazz "traits cr" m e] show ?thesis by simp
  qed
qed

lemma resolveClasses_outOfOrder:
  "\<exists>(clazz, cr)\<in>set cs. \<exists>t\<in>set (traits cr). outOfOrder t \<Longrightarrow>
   \<exists>msg. snd (snd (resolveClasses cs m)) = Some (JsError msg)"
proof (induction cs arbitrary: m)
  case Nil
  then show ?case by simp
next
  case (Cons c cs)
  obtain clazz cr where c: "c = (clazz, cr)" by (cases c)
  obtain ts1 m1 e1 where r: "resolveTraits clazz (traits cr) m = (ts1, m1, e1)"
    by (cases "resolveTraits clazz (traits cr) m")
  show ?case
  proof (cases e1)
    case (Some err)
    with r resolveTraits_thrown [of clazz "traits cr" m err] c show ?thesis by auto
  next
    case None
    with r resolveTraits_outOfOrder [of "traits cr" clazz m] have "\<not> (\<exists>t\<in>set (traits cr). outOfOrder t)"
      by auto
    with Cons.prems c have "\<exists>(clazz, cr)\<in>set cs. \<exists>t\<in>set (traits cr). outOfOrder t" by auto
    from Cons.IH [OF this, of m1] None r c show ?thesis by (auto split: prod.splits)
  qed
qed

lemma resolveClasses_settled:
  "resolveClasses cs m = (cs', m', None) \<Longrightarrow> \<forall>(clazz, cr)\<in>set cs'. \<forall>t\<in>set (traits cr). settled t"
proof (induction cs arbitrary: m cs' m')
  case Nil
  then show ?case by simp
next
  case (Cons c cs)
  obtain clazz cr where c: "c = (clazz, cr)" by (cases c)
  obtain ts1 m1 e1 where r: "resolveTraits clazz (traits cr) m = (ts1, m1, e1)"
    by (cases "resolveTraits clazz (traits cr) m")
  obtain cs2 m2 e2 where r2: "resolveClasses cs m1 = (cs2, m2, e2)"
    by (cases "resolveClasses cs m1")
  from Cons.prems c r r2 have e: "e1 = None" "e2 = None" "cs' = (clazz, cr\<lparr>traits := ts1\<rparr>) # cs2"
    by (auto split: option.splits)
  with Cons.IH [of m1 cs2 m2] r2 resolveTraits_settled [of clazz "traits cr" m ts1 m1] r
  show ?case by auto
qed

lemma resolveTrait_settled:
  "settled t \<Longrightarrow>
   resolveTrait clazz t m = (if state t = RESOLVED then Inl alreadyResolved else Inr (t, m))"
  by (auto simp: resolveTrait_def settled_def alreadyResolved_def)

lemma resolveTraits_again:
  "\<forall>t\<in>set ts. settled t \<Longrightarrow>
   resolveTraits clazz ts m =
     (ts, m, if \<exists>t\<in>set ts. state t = RESOLVED then Some alreadyResolved else None)"
  by (induction ts) (simp_all add: resolveTrait_settled)

lemma resolveClasses_again:
  "\<forall>(clazz, cr)\<in>set cs. \<forall>t\<in>set (traits cr). settled t \<Longrightarrow>
   resolveClasses cs m =
     (cs, m, if \<exists>(clazz, cr)\<in>set cs. \<exists>t\<in>set (traits cr). state t = RESOLVED
             then Some alreadyResolved else None)"
proof (induction cs)
  case Nil
  show ?case by simp
next
  case (Cons c cs)
  obtain clazz cr where c: "c = (clazz, cr)" by (cases c)
  from Cons.prems c have s: "\<forall>t\<in>set (traits cr). settled t" by auto
  from Cons.prems have "\<forall>(clazz, cr)\<in>set cs. \<forall>t\<in>set (traits cr). settled t" by auto
  from Cons.IH [OF this] resolveTraits_again [OF s, of clazz m] c
  show ?case by auto
qed

lemma classes_recordNgModuleScopeDependencies [simp]:
  "classes (recordNgModuleScopeDependencies tc) = classes tc"
  by (simp add: recordNgModuleScopeDependencies_def)

lemma reexportMap_recordNgModuleScopeDependencies [simp]:
  "reexportMap (recordNgModuleScopeDependencies tc) = reexportMap tc"
  by (simp add: recordNgModuleScopeDependencies_def)

lemma TraitCompiler_resolve_settled:
  assumes "snd (TraitCompiler_resolve tc) = None"
  shows "\<forall>(clazz, cr)\<in>set (classes (fst (TraitCompiler_resolve tc))). \<forall>t\<in>set (traits cr). settled t"
proof -
  obtain cs' m' e where r: "resolveClasses (classes tc) (reexportMap tc) = (cs', m', e)"
    by (cases "resolveClasses (classes tc) (reexportMap tc)")
  with assms have e: "e = None" by (cases e) (simp_all add: TraitCompiler_resolve_def)
  with r resolveClasses_settled [of "classes tc" "reexportMap tc" cs' m'] show ?thesis
    by (simp add: TraitCompiler_resolve_def)
qed

text \<open>
  Claim C2. The resolve step of a trait in the state PENDING, and of a trait in the state
  RESOLVED, throws an \<open>Error\<close>. So \<open>resolve()\<close> throws an \<open>Error\<close> whenever a record holds
  a trait in one of the two states; and once a first \<open>resolve()\<close> has returned and left a
  trait RESOLVED, a second \<open>resolve()\<close> throws "Resolving an already resolved trait" and
  changes nothing: no trait turns ERRORED, no diagnostic is added.
\<close>

theorem resolve_out_of_order_throws:
  "(state trait = PENDING \<longrightarrow>
      resolveTrait clazz trait m =
        Inl (JsError (''Resolving a trait that hasn't been analyzed: '' @ nameText clazz @ '' / '' @
                      constructorName (handler trait)))) \<and>
   (state trait = RESOLVED \<longrightarrow>
      resolveTrait clazz trait m = Inl (JsError ''Resolving an already resolved trait'')) \<and>
   ((clazz, cr) \<in> set (classes tc) \<and> trait \<in> set (traits cr) \<and>
    (state trait = PENDING \<or> state trait = RESOLVED) \<longrightarrow>
      (\<exists>msg. snd (TraitCompiler_resolve tc) = Some (JsError msg))) \<and>
   (snd (TraitCompiler_resolve tc) = None \<and>
    (clazz, cr) \<in> set (classes (fst (TraitCompiler_resolve tc))) \<and> trait \<in> set (traits cr) \<and>
    state trait = RESOLVED \<longrightarrow>
      TraitCompiler_resolve (fst (TraitCompiler_resolve tc)) =
        (fst (TraitCompiler_resolve tc), Some (JsError ''Resolving an already resolved trait'')))"
proof (intro conjI impI)
  assume "state trait = PENDING"
  then show "resolveTrait clazz trait m =
        Inl (JsError (''Resolving a trait that hasn't been analyzed: '' @ nameText clazz @ '' / '' @
                      constructorName (handler trait)))"
    by (simp add: resolveTrait_def)
next
  assume "state trait = RESOLVED"
  then show "resolveTrait clazz trait m = Inl (JsError ''Resolving an already resolved trait'')"
    by (simp add: resolveTrait_def)
next
  assume "(clazz, cr) \<in> set (classes tc) \<and> trait \<in> set (traits cr) \<and>
    (state trait = PENDING \<or> state trait = RESOLVED)"
  then have "\<exists>(clazz, cr)\<in>set (classes tc). \<exists>t\<in>set (traits cr). outOfOrder t"
    by (auto simp: outOfOrder_def)
  from resolveClasses_outOfOrder [OF this, of "reexportMap tc"]
  show "\<exists>msg. snd (TraitCompiler_resolve tc) = Some (JsError msg)"
    by (auto simp: TraitCompiler_resolve_def split: prod.splits option.splits)
next
  let ?tc1 = "fst (TraitCompiler_resolve tc)"
  assume a: "snd (TraitCompiler_resolve tc) = None \<and>
    (clazz, cr) \<in> set (classes ?tc1) \<and> trait \<in> set (traits cr) \<and> state trait = RESOLVED"
  then have s: "\<forall>(clazz, cr)\<in>set (classes ?tc1). \<forall>t\<in>set (traits cr). settled t"
    by (intro TraitCompiler_resolve_settled) simp
  from a have "\<exists>(clazz, cr)\<in>set (classes ?tc1). \<exists>t\<in>set (traits cr). state t = RESOLVED" by auto
  with resolveClasses_again [OF s, of "reexportMap ?tc1"]
  have "resolveClasses (classes ?tc1) (reexportMap ?tc1) =
          (classes ?tc1, reexportMap ?tc1, Some alreadyResolved)" by simp
  then show "TraitCompiler_resolve ?tc1 =
        (?tc1, Some (JsError ''Resolving an already resolved trait''))"
    by (simp add: TraitCompiler_resolve_def [of ?tc1] alreadyResolved_def)
qed

lemmas resolve_example_defs = pendingTrait_def recordWith_def compilerWith_def exampleCompiler_def
  exampleHandler_def exampleClass_def Trait_pending_def toAnalyzed_def toResolved_def toErrored_def
  toSkipped_def

theorem resolve_out_of_order_throws_witness:
  "resolveTrait exampleClass pendingTrait Map.empty =
     Inl (JsError ''Resolving a trait that hasn't been analyzed: AppCmp / A'') \<and>
   (\<exists>msg. snd (TraitCompiler_resolve (compilerWith [toSkipped pendingTrait, pendingTrait])) =
      Some (JsError msg)) \<and>
   snd (TraitCompiler_resolve (compilerWith [toAnalyzed pendingTrait 7])) = None \<and>
   TraitCompiler_resolve (fst (TraitCompiler_resolve (compilerWith [toAnalyzed pendingTrait 7]))) =
     (fst (TraitCompiler_resolve (compilerWith [toAnalyzed pendingTrait 7])),
      Some (JsError ''Resolving an already resolved trait''))"
proof -
  let ?tc = "compilerWith [toAnalyzed pendingTrait 7]"
  let ?t = "toResolved (toAnalyzed pendingTrait 7) None"
  have p: "state pendingTrait = PENDING"
    by (simp add: resolve_example_defs)
  have 1: "resolveTrait exampleClass pendingTrait Map.empty =
     Inl (JsError ''Resolving a trait that hasn't been analyzed: AppCmp / A'')"
    using resolve_out_of_order_throws [THEN conjunct1, THEN mp, OF p, of exampleClass Map.empty]
    by (simp add: resolve_example_defs)
  have "(exampleClass, recordWith [toSkipped pendingTrait, pendingTrait]) \<in>
          set (classes (compilerWith [toSkipped pendingTrait, pendingTrait])) \<and>
        pendingTrait \<in> set (traits (recordWith [toSkipped pendingTrait, pendingTrait])) \<and>
        (state pendingTrait = PENDING \<or> state pendingTrait = RESOLVED)"
    using p by (simp add: compilerWith_def recordWith_def)
  from resolve_out_of_order_throws [THEN conjunct2, THEN conjunct2, THEN conjunct1, THEN mp, OF this]
  have 2: "\<exists>msg. snd (TraitCompiler_resolve (compilerWith [toSkipped pendingTrait, pendingTrait])) =
      Some (JsError msg)" .
  have 3: "snd (TraitCompiler_resolve ?tc) = None"
    by (simp add: TraitCompiler_resolve_def resolveTrait_def resolve_example_defs)
  have "classes (fst (TraitCompiler_resolve ?tc)) = [(exampleClass, recordWith [?t])]"
    by (simp add: TraitCompiler_resolve_def resolveTrait_def recordNgModuleScopeDependencies_def
        resolve_example_defs)
  with 3 have "snd (TraitCompiler_resolve ?tc) = None \<and>
      (exampleClass, recordWith [?t]) \<in> set (classes (fst (TraitCompiler_resolve ?tc))) \<and>
      ?t \<in> set (traits (recordWith [?t])) \<and> state ?t = RESOLVED"
    by (simp add: recordWith_def toResolved_def)
  from resolve_out_of_order_throws [THEN conjunct2, THEN conjunct2, THEN conjunct2, THEN mp, OF this]
  have 4: "TraitCompiler_resolve (fst (TraitCompiler_resolve ?tc)) =
     (fst (TraitCompiler_resolve ?tc), Some (JsError ''Resolving an already resolved trait''))" .
  from 1 2 3 4 show ?thesis by (intro conjI)
qed

section \<open>Properties of dependency recording\<close>

lemma fold_directives:
  "fold (\<lambda>directive d.
      if isComponent directive
      then trackFileDependencies (trackFileDependency d (directiveFile directive) file) deps
             (directiveFile directive)
      else trackFileDependency d (directiveFile directive) file) ds d src =
   d src \<union> (if src = file then directiveFile ` set ds else {}) \<union>
     (if src \<in> componentFiles ds then deps else {})"
proof (induction ds arbitrary: d)
  case Nil
  show ?case by (simp add: componentFiles_def)
next
  case (Cons dr ds)
  have c: "componentFiles (dr # ds) =
      (if isComponent dr then insert (directiveFile dr) (componentFiles ds) else componentFiles ds)"
    by (auto simp: componentFiles_def)
  show ?case
    unfolding fold_Cons comp_apply Cons.IH c
    by (auto simp: Let_def trackFileDependency_def trackFileDependencies_def)
qed

lemma fold_pipes:
  "fold (\<lambda>pipe d. trackFileDependency d pipe file) ps d src =
   d src \<union> (if src = file then set ps else {})"
  by (induction ps arbitrary: d) (auto simp: trackFileDependency_def)

lemma recordScope_exact:
  "recordScope driver scope src =
     driver src \<union>
     (if src = ngModuleSf scope then driver (declarationSf scope) else {}) \<union>
     (if src = declarationSf scope
      then insert (ngModuleSf scope) (directiveFile ` set (directives scope) \<union> set (pipes scope))
      else {}) \<union>
     (if src \<in> componentFiles (directives scope) then driver (declarationSf scope) else {})"
  unfolding recordScope_def Let_def fold_pipes fold_directives
  by (simp add: trackFileDependency_def trackFileDependencies_def getFileDependencies_def) blast

lemma recordScope_pipe:
  "recordScope driver (scope\<lparr>pipes := pipes scope @ [p]\<rparr>) =
     trackFileDependency (recordScope driver scope) p (declarationSf scope)"
  by (simp add: recordScope_def Let_def)

text \<open>
  Claim C7, as amended. For a compilation scope whose declaration is in the file \<open>F\<close> and
  whose NgModule is in the file \<open>M\<close>, with \<open>D\<close> the files that \<open>F\<close> depends on when the
  scope is reached, the loop body records exactly the edges \<open>D \<rightarrow> M\<close>, \<open>M \<rightarrow> F\<close>,
  \<open>C \<rightarrow> F\<close> for every directive in a file \<open>C\<close>, \<open>D \<rightarrow> C\<close> when that directive is a
  component, and \<open>P \<rightarrow> F\<close> for every pipe in a file \<open>P\<close> (an edge \<open>a \<rightarrow> b\<close>: a change of
  \<open>a\<close> invalidates \<open>b\<close>). One more pipe in \<open>P\<close> adds the edge \<open>P \<rightarrow> F\<close> and nothing else.
  With this one scope in the registry, this is what \<open>recordNgModuleScopeDependencies\<close>
  does to the store.
\<close>

theorem scope_dependency_edges:
  "(\<forall>a b. invalidates (recordScope driver scope) a b \<longleftrightarrow>
       invalidates driver a b \<or>
       invalidates driver a (declarationSf scope) \<and> b = ngModuleSf scope \<or>
       a = ngModuleSf scope \<and> b = declarationSf scope \<or>
       (\<exists>dr\<in>set (directives scope). a = directiveFile dr \<and> b = declarationSf scope) \<or>
       (\<exists>dr\<in>set (directives scope). isComponent dr \<and>
           invalidates driver a (declarationSf scope) \<and> b = directiveFile dr) \<or>
       a \<in> set (pipes scope) \<and> b = declarationSf scope) \<and>
   recordScope driver (scope\<lparr>pipes := pipes scope @ [p]\<rparr>) =
     trackFileDependency (recordScope driver scope) p (declarationSf scope) \<and>
   (scopeRegistry tc = [scope] \<longrightarrow>
      incrementalDriver (recordNgModuleScopeDependencies tc) = recordScope (incrementalDriver tc) scope)"
proof (intro conjI allI impI)
  fix a b
  show "invalidates (recordScope driver scope) a b \<longleftrightarrow>
       invalidates driver a b \<or>
       invalidates driver a (declarationSf scope) \<and> b = ngModuleSf scope \<or>
       a = ngModuleSf scope \<and> b = declarationSf scope \<or>
       (\<exists>dr\<in>set (directives scope). a = directiveFile dr \<and> b = declarationSf scope) \<or>
       (\<exists>dr\<in>set (directives scope). isComponent dr \<and>
           invalidates driver a (declarationSf scope) \<and> b = directiveFile dr) \<or>
       a \<in> set (pipes scope) \<and> b = declarationSf scope"
    unfolding invalidates_def getFileDependencies_def recordScope_exact componentFiles_def
    by auto
next
  show "recordScope driver (scope\<lparr>pipes := pipes scope @ [p]\<rparr>) =
     trackFileDependency (recordScope driver scope) p (declarationSf scope)"
    by (rule recordScope_pipe)
next
  assume "scopeRegistry tc = [scope]"
  then show "incrementalDriver (recordNgModuleScopeDependencies tc) =
      recordScope (incrementalDriver tc) scope"
    by (simp add: recordNgModuleScopeDependencies_def)
qed

lemmas scope_example_defs = scopeCompiler_def exampleCompiler_def moduleFile_def cmpFile_def
  depFile_def pipeFile_def

lemmas record_defs = recordNgModuleScopeDependencies_def recordScope_def trackFileDependency_def
  trackFileDependencies_def getFileDependencies_def invalidates_def Let_def

text \<open>
  Claim C7 as the spec states it has the edges \<open>C \<rightarrow> M\<close>, \<open>M \<rightarrow> C\<close> and \<open>P \<rightarrow> M\<close>. For
  the scope of a component in cmp.ts (declared in the NgModule of app.module.ts, with a
  pipe of pipe.ts in scope) neither \<open>C \<rightarrow> M\<close> nor \<open>P \<rightarrow> M\<close> is recorded; and were the
  declaration in the file of the NgModule itself, \<open>M \<rightarrow> C\<close> would not be.
\<close>

theorem scope_dependency_edges_counterexample:
  "\<not> invalidates (incrementalDriver (recordNgModuleScopeDependencies (scopeCompiler cmpFile)))
        cmpFile moduleFile \<and>
   \<not> invalidates (incrementalDriver (recordNgModuleScopeDependencies (scopeCompiler cmpFile)))
        pipeFile moduleFile \<and>
   \<not> invalidates (incrementalDriver (recordNgModuleScopeDependencies (scopeCompiler moduleFile)))
        moduleFile cmpFile"
  by (simp add: record_defs scope_example_defs)

theorem scope_dependency_edges_witness:
  "invalidates (incrementalDriver (recordNgModuleScopeDependencies (scopeCompiler cmpFile)))
     depFile moduleFile \<and>
   invalidates (incrementalDriver (recordNgModuleScopeDependencies (scopeCompiler cmpFile)))
     moduleFile cmpFile \<and>
   invalidates (incrementalDriver (recordNgModuleScopeDependencies (scopeCompiler cmpFile)))
     depFile cmpFile \<and>
   invalidates (incrementalDriver (recordNgModuleScopeDependencies (scopeCompiler cmpFile)))
     pipeFile cmpFile \<and>
   \<not> invalidates (incrementalDriver (recordNgModuleScopeDependencies (scopeCompiler cmpFile)))
     depFile pipeFile"
proof -
  let ?scope = "hd (scopeRegistry (scopeCompiler cmpFile :: nat TraitCompiler))"
  let ?driver = "incrementalDriver (scopeCompiler cmpFile :: nat TraitCompiler)"
  have r: "scopeRegistry (scopeCompiler cmpFile :: nat TraitCompiler) = [?scope]"
    by (simp add: scopeCompiler_def)
  note e = scope_dependency_edges [of ?driver ?scope _ "scopeCompiler cmpFile", THEN conjunct1, rule_format]
  note t = scope_dependency_edges [of ?driver ?scope pipeFile "scopeCompiler cmpFile",
      THEN conjunct2, THEN conjunct2, THEN mp, OF r]
  show ?thesis
    unfolding t e
    by (simp add: scope_example_defs invalidates_def getFileDependencies_def)
qed

section \<open>Properties of the re-export table\<close>





















section \<open>Properties of analysis\<close>

lemma analyzeTraits_append:
  "analyzeTraits tc clazz (pre @ post) =
     (case analyzeTraits tc clazz pre of
        (tc1, pre', Some err) \<Rightarrow> (tc1, pre' @ post, Some err)
      | (tc1, pre', None) \<Rightarrow>
          (case analyzeTraits tc1 clazz post of (tc2, post', thrown) \<Rightarrow> (tc2, pre' @ post', thrown)))"
proof (induction pre arbitrary: tc)
  case Nil
  show ?case by (simp split: prod.splits)
next
  case (Cons t pre)
  show ?case
  proof (cases "analyzeTrait tc clazz t")
    case (Inl err)
    then show ?thesis by simp
  next
    case (Inr p)
    obtain tc1 t1 where p: "p = (tc1, t1)" by (cases p)
    with Inr Cons.IH [of tc1] show ?thesis
      by (auto split: prod.splits option.splits)
  qed
qed

lemma length_analyzeTraits:
  "length (fst (snd (analyzeTraits tc clazz ts))) = length ts"
proof (induction ts arbitrary: tc)
  case Nil
  show ?case by simp
next
  case (Cons t ts)
  show ?case
  proof (cases "analyzeTrait tc clazz t")
    case (Inl err)
    then show ?thesis by simp
  next
    case (Inr p)
    obtain tc1 t1 where p: "p = (tc1, t1)" by (cases p)
    with Inr Cons.IH [of tc1] show ?thesis by (auto split: prod.splits)
  qed
qed

lemma analyzeTrait_fatal:
  assumes "state trait = PENDING"
    "analyze (handler trait) clazz (metadata (detected trait)) = Inl (FatalDiagnosticError d)"
  shows "analyzeTrait tc clazz trait = Inr (tc, toErrored trait [d])"
  using assms by (simp add: analyzeTrait_def)

lemma analyzeTrait_other:
  assumes "state trait = PENDING"
    "analyze (handler trait) clazz (metadata (detected trait)) = Inl (JsError msg)"
  shows "analyzeTrait tc clazz trait = Inl (JsError msg)"
  using assms by (simp add: analyzeTrait_def)

lemma analyzeTraits_fatal:
  assumes f: "state trait = PENDING"
    "analyze (handler trait) clazz (metadata (detected trait)) = Inl (FatalDiagnosticError d)"
    and pre: "snd (snd (analyzeTraits tc clazz pre)) = None"
  shows "analyzeTraits tc clazz (pre @ trait # post) =
     (case analyzeTraits tc clazz (pre @ post) of
        (tc', ts, thrown) \<Rightarrow>
          (tc', take (length pre) ts @ toErrored trait [d] # drop (length pre) ts, thrown))"
proof -
  obtain tc1 pre' where 1: "analyzeTraits tc clazz pre = (tc1, pre', None)"
    using pre by (cases "analyzeTraits tc clazz pre") auto
  obtain tc2 post' e where 2: "analyzeTraits tc1 clazz post = (tc2, post', e)"
    by (cases "analyzeTraits tc1 clazz post")
  from length_analyzeTraits [of tc clazz pre] 1 have l: "length pre' = length pre" by simp
  from 1 2 l analyzeTrait_fatal [OF f, of tc1] show ?thesis
    by (simp add: analyzeTraits_append)
qed

lemma analyzeTraits_other:
  assumes f: "state trait = PENDING"
    "analyze (handler trait) clazz (metadata (detected trait)) = Inl (JsError msg)"
    and pre: "snd (snd (analyzeTraits tc clazz pre)) = None"
  shows "analyzeTraits tc clazz (pre @ trait # post) =
     (fst (analyzeTraits tc clazz pre), fst (snd (analyzeTraits tc clazz pre)) @ trait # post,
      Some (JsError msg))"
proof -
  obtain tc1 pre' where 1: "analyzeTraits tc clazz pre = (tc1, pre', None)"
    using pre by (cases "analyzeTraits tc clazz pre") auto
  from 1 analyzeTrait_other [OF f, of tc1] show ?thesis
    by (simp add: analyzeTraits_append)
qed

lemma classes_analyzeTrait:
  "analyzeTrait tc clazz t = Inr (tc', t') \<Longrightarrow> classes tc' = classes tc"
  by (auto simp: analyzeTrait_def Let_def
      split: if_splits sum.splits Thrown.splits option.splits prod.splits)

lemma classes_analyzeTraits:
  "classes (fst (analyzeTraits tc clazz ts)) = classes tc"
proof (induction ts arbitrary: tc)
  case Nil
  show ?case by simp
next
  case (Cons t ts)
  show ?case
  proof (cases "analyzeTrait tc clazz t")
    case (Inl err)
    then show ?thesis by simp
  next
    case (Inr p)
    obtain tc1 t1 where p: "p = (tc1, t1)" by (cases p)
    from classes_analyzeTrait [OF Inr [unfolded p]] Cons.IH [of tc1] Inr p
    show ?thesis by (auto split: prod.splits)
  qed
qed

lemma other_scanStep:
  "c \<noteq> clazz \<Longrightarrow>
   map_of (classes (fst (finish (scanStep ec clazz decorators h (tc, ro))))) c = map_of (classes tc) c"
  by (simp add: scanStep_def acceptTrait_def storeRecord_def addToFile_def Let_def
      AList.update_conv' split: option.splits)

lemma other_scanLoop:
  "c \<noteq> clazz \<Longrightarrow>
   map_of (classes (fst (finish (scanLoop ec clazz decorators hs st)))) c = map_of (classes (fst st)) c"
proof (induction hs arbitrary: st)
  case Nil
  show ?case by simp
next
  case (Cons h hs)
  obtain tc ro where st: "st = (tc, ro)" by (cases st)
  from other_scanStep [OF Cons.prems, of ec decorators h tc ro] Cons.IH [OF Cons.prems] st
  show ?case by (cases "scanStep ec clazz decorators h (tc, ro)") auto
qed

lemma other_scanClassForTraits:
  "c \<noteq> clazz \<Longrightarrow> map_of (classes (fst (scanClassForTraits ec tc clazz))) c = map_of (classes tc) c"
  using other_scanLoop [of c clazz ec "getDecoratorsOfDeclaration tc clazz" "handlers tc" "(tc, None)"]
  by (simp add: scanClassForTraits_def Let_def)

lemma other_analyzeClass:
  assumes "c \<noteq> clazz"
  shows "map_of (classes (fst (analyzeClass ec tc clazz))) c = map_of (classes tc) c"
proof (cases "scanClassForTraits ec tc clazz")
  case (Pair tc1 ro)
  with other_scanClassForTraits [OF assms, of ec tc] have 1: "map_of (classes tc1) c = map_of (classes tc) c"
    by simp
  show ?thesis
  proof (cases ro)
    case None
    with Pair 1 show ?thesis by (simp add: analyzeClass_def)
  next
    case (Some cr)
    with Pair 1 classes_analyzeTraits [of tc1 clazz "traits cr"] assms show ?thesis
      by (auto simp: analyzeClass_def storeRecord_def AList.update_conv' split: prod.splits)
  qed
qed

lemma analyzeClass_thrown:
  assumes "snd (scanClassForTraits ec tc clazz) = Some cr"
  shows "snd (analyzeClass ec tc clazz) =
     snd (snd (analyzeTraits (fst (scanClassForTraits ec tc clazz)) clazz (traits cr)))"
  using assms by (cases "scanClassForTraits ec tc clazz") (auto simp: analyzeClass_def split: prod.splits)

lemma analyze_failures_sync:
  "(state trait = PENDING \<and>
    analyze (handler trait) clazz (metadata (detected trait)) = Inl (FatalDiagnosticError d) \<longrightarrow>
      analyzeTrait tc clazz trait = Inr (tc, toErrored trait [d]) \<and>
      state (toErrored trait [d]) = ERRORED \<and> diagnostics (toErrored trait [d]) = Some [d] \<and>
      (snd (snd (analyzeTraits tc clazz pre)) = None \<longrightarrow>
         analyzeTraits tc clazz (pre @ trait # post) =
           (case analyzeTraits tc clazz (pre @ post) of
              (tc', ts, thrown) \<Rightarrow>
                (tc', take (length pre) ts @ toErrored trait [d] # drop (length pre) ts, thrown)))) \<and>
   (state trait = PENDING \<and>
    analyze (handler trait) clazz (metadata (detected trait)) = Inl (JsError msg) \<longrightarrow>
      analyzeTrait tc clazz trait = Inl (JsError msg) \<and>
      (snd (snd (analyzeTraits tc clazz pre)) = None \<longrightarrow>
         analyzeTraits tc clazz (pre @ trait # post) =
           (fst (analyzeTraits tc clazz pre), fst (snd (analyzeTraits tc clazz pre)) @ trait # post,
            Some (JsError msg)))) \<and>
   (snd (scanClassForTraits ec tc clazz) = Some cr \<longrightarrow>
      snd (analyzeClass ec tc clazz) =
        snd (snd (analyzeTraits (fst (scanClassForTraits ec tc clazz)) clazz (traits cr))) \<and>
      map_of (classes (fst (analyzeClass ec tc clazz))) clazz =
        Some (cr\<lparr>traits :=
                fst (snd (analyzeTraits (fst (scanClassForTraits ec tc clazz)) clazz (traits cr)))\<rparr>)) \<and>
   (snd (analyzeClass ec tc clazz) = Some e \<longrightarrow>
      analyzeSync ec tc (clazz # cs) = analyzeClass ec tc clazz) \<and>
   (c \<noteq> clazz \<longrightarrow> map_of (classes (fst (analyzeClass ec tc clazz))) c = map_of (classes tc) c)"
proof (intro conjI impI)
  assume a: "state trait = PENDING \<and>
    analyze (handler trait) clazz (metadata (detected trait)) = Inl (FatalDiagnosticError d)"
  then show "analyzeTrait tc clazz trait = Inr (tc, toErrored trait [d])"
    by (intro analyzeTrait_fatal) auto
  show "state (toErrored trait [d]) = ERRORED" "diagnostics (toErrored trait [d]) = Some [d]"
    by (simp_all add: toErrored_def)
  assume "snd (snd (analyzeTraits tc clazz pre)) = None"
  with a show "analyzeTraits tc clazz (pre @ trait # post) =
           (case analyzeTraits tc clazz (pre @ post) of
              (tc', ts, thrown) \<Rightarrow>
                (tc', take (length pre) ts @ toErrored trait [d] # drop (length pre) ts, thrown))"
    by (intro analyzeTraits_fatal) auto
next
  assume a: "state trait = PENDING \<and>
    analyze (handler trait) clazz (metadata (detected trait)) = Inl (JsError msg)"
  then show "analyzeTrait tc clazz trait = Inl (JsError msg)"
    by (intro analyzeTrait_other) auto
  assume "snd (snd (analyzeTraits tc clazz pre)) = None"
  with a show "analyzeTraits tc clazz (pre @ trait # post) =
           (fst (analyzeTraits tc clazz pre), fst (snd (analyzeTraits tc clazz pre)) @ trait # post,
            Some (JsError msg))"
    by (intro analyzeTraits_other) auto
next
  assume a: "snd (scanClassForTraits ec tc clazz) = Some cr"
  then show "snd (analyzeClass ec tc clazz) =
        snd (snd (analyzeTraits (fst (scanClassForTraits ec tc clazz)) clazz (traits cr)))"
    by (rule analyzeClass_thrown)
  from a show "map_of (classes (fst (analyzeClass ec tc clazz))) clazz =
        Some (cr\<lparr>traits :=
                fst (snd (analyzeTraits (fst (scanClassForTraits ec tc clazz)) clazz (traits cr)))\<rparr>)"
    by (cases "scanClassForTraits ec tc clazz")
      (auto simp: analyzeClass_def storeRecord_def AList.update_conv' split: prod.splits)
next
  assume "snd (analyzeClass ec tc clazz) = Some e"
  then show "analyzeSync ec tc (clazz # cs) = analyzeClass ec tc clazz"
    by (cases "analyzeClass ec tc clazz") simp
next
  assume "c \<noteq> clazz"
  then show "map_of (classes (fst (analyzeClass ec tc clazz))) c = map_of (classes tc) c"
    by (rule other_analyzeClass)
qed

lemma analyzeTraits_preanalyze_deferred:
  assumes "preanalysisOf trait clazz = Some promise"
  shows "analyzeTraits_preanalyze tc clazz i (trait # ts) queue =
     (case analyzeTraits_preanalyze tc clazz (Suc i) ts
             (queue @ [\<lparr>deferredClass = clazz, deferredTrait = i, preanalysis = promise\<rparr>]) of
        (tc', ts', queue', thrown) \<Rightarrow> (tc', trait # ts', queue', thrown))"
  using assms by (simp add: preanalysisOf_def split: prod.splits)

lemma analyzeTraits_preanalyze_at_once:
  assumes "preanalysisOf trait clazz = None"
  shows "analyzeTraits_preanalyze tc clazz i (trait # ts) queue =
     (case analyzeTrait tc clazz trait of
        Inl err \<Rightarrow> (tc, trait # ts, queue, Some err)
      | Inr (tc', trait') \<Rightarrow>
          (case analyzeTraits_preanalyze tc' clazz (Suc i) ts queue of
             (tc'', ts', queue', thrown) \<Rightarrow> (tc'', trait' # ts', queue', thrown)))"
  using assms by (simp add: preanalysisOf_def split: prod.splits sum.splits)

lemma analyzeTraits_preanalyze_sync:
  "\<forall>t\<in>set ts. preanalysisOf t clazz = None \<Longrightarrow>
   analyzeTraits_preanalyze tc clazz i ts queue =
     (case analyzeTraits tc clazz ts of (tc', ts', thrown) \<Rightarrow> (tc', ts', queue, thrown))"
proof (induction ts arbitrary: tc i)
  case Nil
  show ?case by simp
next
  case (Cons t ts)
  then have n: "preanalysisOf t clazz = None" and r: "\<forall>t\<in>set ts. preanalysisOf t clazz = None"
    by simp_all
  show ?case
  proof (cases "analyzeTrait tc clazz t")
    case (Inl err)
    then show ?thesis unfolding analyzeTraits_preanalyze_at_once [OF n] by simp
  next
    case (Inr p)
    obtain tc1 t1 where p: "p = (tc1, t1)" by (cases p)
    with Inr Cons.IH [OF r, of tc1 "Suc i"] show ?thesis
      unfolding analyzeTraits_preanalyze_at_once [OF n] by (auto split: prod.splits)
  qed
qed

lemma thenAnalyze_fulfilled:
  assumes "preanalysis task = Fulfils" "map_of (classes tc) (deferredClass task) = Some cr"
    "deferredTrait task < length (traits cr)"
  shows "thenAnalyze tc task =
     (case analyzeTrait tc (deferredClass task) (traits cr ! deferredTrait task) of
        Inl err \<Rightarrow> (tc, Some err)
      | Inr (tc', trait') \<Rightarrow>
          (storeRecord tc' (deferredClass task)
             (cr\<lparr>traits := (traits cr)[deferredTrait task := trait']\<rparr>), None))"
  using assms by (simp add: thenAnalyze_def)

lemma thenAnalyze_rejected:
  "preanalysis task = Rejects reason \<Longrightarrow> thenAnalyze tc task = (tc, Some reason)"
  by (simp add: thenAnalyze_def)

lemma other_thenAnalyze:
  assumes "c \<noteq> deferredClass task"
  shows "map_of (classes (fst (thenAnalyze tc task))) c = map_of (classes tc) c"
proof (cases "preanalysis task")
  case Fulfils
  show ?thesis
  proof (cases "map_of (classes tc) (deferredClass task)")
    case None
    with Fulfils show ?thesis by (simp add: thenAnalyze_def)
  next
    case (Some cr)
    show ?thesis
    proof (cases "analyzeTrait tc (deferredClass task) (traits cr ! deferredTrait task)")
      case (Inl err)
      with Fulfils Some show ?thesis by (simp add: thenAnalyze_def)
    next
      case (Inr p)
      obtain tc1 t1 where p: "p = (tc1, t1)" by (cases p)
      from classes_analyzeTrait [OF Inr [unfolded p]] Fulfils Some Inr p assms show ?thesis
        by (simp add: thenAnalyze_def storeRecord_def AList.update_conv')
    qed
  qed
next
  case (Rejects reason)
  then show ?thesis by (simp add: thenAnalyze_def)
qed

lemma classes_analyzeTraits_preanalyze:
  "classes (fst (analyzeTraits_preanalyze tc clazz i ts queue)) = classes tc"
proof (induction ts arbitrary: tc i queue)
  case Nil
  show ?case by simp
next
  case (Cons t ts)
  show ?case
  proof (cases "preanalysisOf t clazz")
    case (Some promise)
    from Cons.IH [of tc "Suc i"
        "queue @ [\<lparr>deferredClass = clazz, deferredTrait = i, preanalysis = promise\<rparr>]"]
    show ?thesis
      unfolding analyzeTraits_preanalyze_deferred [OF Some] by (auto split: prod.splits)
  next
    case None
    show ?thesis
    proof (cases "analyzeTrait tc clazz t")
      case (Inl err)
      then show ?thesis unfolding analyzeTraits_preanalyze_at_once [OF None] by simp
    next
      case (Inr p)
      obtain tc1 t1 where p: "p = (tc1, t1)" by (cases p)
      from classes_analyzeTrait [OF Inr [unfolded p]] Cons.IH [of tc1 "Suc i" queue] Inr p
      show ?thesis unfolding analyzeTraits_preanalyze_at_once [OF None] by (auto split: prod.splits)
    qed
  qed
qed

lemma analyzeClass_preanalyze_Some:
  assumes "snd (scanClassForTraits ec tc clazz) = Some cr"
  shows "analyzeClass_preanalyze ec tc clazz queue =
     (case analyzeTraits_preanalyze (fst (scanClassForTraits ec tc clazz)) clazz 0 (traits cr) queue of
        (tc2, ts, queue', thrown) \<Rightarrow> (storeRecord tc2 clazz (cr\<lparr>traits := ts\<rparr>), queue', thrown))"
  using assms by (cases "scanClassForTraits ec tc clazz") (simp add: analyzeClass_preanalyze_def)

lemma analyzeClass_preanalyze_None:
  assumes "snd (scanClassForTraits ec tc clazz) = None"
  shows "analyzeClass_preanalyze ec tc clazz queue = (fst (scanClassForTraits ec tc clazz), queue, None)"
  using assms by (cases "scanClassForTraits ec tc clazz") (simp add: analyzeClass_preanalyze_def)

lemma analyzeClass_None:
  assumes "snd (scanClassForTraits ec tc clazz) = None"
  shows "analyzeClass ec tc clazz = (fst (scanClassForTraits ec tc clazz), None)"
  using assms by (cases "scanClassForTraits ec tc clazz") (simp add: analyzeClass_def)

lemma other_analyzeClass_preanalyze:
  assumes "c \<noteq> clazz"
  shows "map_of (classes (fst (analyzeClass_preanalyze ec tc clazz queue))) c = map_of (classes tc) c"
proof (cases "scanClassForTraits ec tc clazz")
  case (Pair tc1 ro)
  with other_scanClassForTraits [OF assms, of ec tc] have 1: "map_of (classes tc1) c = map_of (classes tc) c"
    by simp
  show ?thesis
  proof (cases ro)
    case None
    with Pair 1 show ?thesis by (simp add: analyzeClass_preanalyze_def)
  next
    case (Some cr)
    with Pair 1 classes_analyzeTraits_preanalyze [of tc1 clazz 0 "traits cr" queue] assms show ?thesis
      by (auto simp: analyzeClass_preanalyze_def storeRecord_def AList.update_conv' split: prod.splits)
  qed
qed

lemma analyzeSync_continues:
  "snd (analyzeClass ec tc clazz) = None \<Longrightarrow>
   analyzeSync ec tc (clazz # cs) = analyzeSync ec (fst (analyzeClass ec tc clazz)) cs"
  by (cases "analyzeClass ec tc clazz") simp

lemma visit_preanalyze_continues:
  "snd (snd (analyzeClass_preanalyze ec tc clazz promises)) = None \<Longrightarrow>
   visit_preanalyze ec tc (clazz # cs) promises =
     visit_preanalyze ec (fst (analyzeClass_preanalyze ec tc clazz promises)) cs
       (fst (snd (analyzeClass_preanalyze ec tc clazz promises)))"
  by (cases "analyzeClass_preanalyze ec tc clazz promises") auto

lemma visit_preanalyze_throws:
  "snd (snd (analyzeClass_preanalyze ec tc clazz promises)) = Some e \<Longrightarrow>
   visit_preanalyze ec tc (clazz # cs) promises = analyzeClass_preanalyze ec tc clazz promises"
  by (cases "analyzeClass_preanalyze ec tc clazz promises") auto

lemma Promise_all_Cons:
  "Promise_all tc (task # tasks) =
     (fst (Promise_all (fst (thenAnalyze tc task)) tasks),
      case snd (thenAnalyze tc task) of
        Some reason \<Rightarrow> Some reason
      | None \<Rightarrow> snd (Promise_all (fst (thenAnalyze tc task)) tasks))"
  by (auto split: prod.splits option.splits)

lemma deferred_fatal:
  assumes f: "state trait = PENDING"
    "analyze (handler trait) clazz (metadata (detected trait)) = Inl (FatalDiagnosticError d)"
  shows "(preanalysisOf trait clazz = None \<longrightarrow>
           analyzeTraits_preanalyze tc clazz i (trait # ts) queue =
             (case analyzeTraits_preanalyze tc clazz (Suc i) ts queue of
                (tc', ts', queue', thrown) \<Rightarrow> (tc', toErrored trait [d] # ts', queue', thrown))) \<and>
         (preanalysis task = Fulfils \<and> deferredClass task = clazz \<and>
          map_of (classes tc) clazz = Some cr \<and> deferredTrait task < length (traits cr) \<and>
          traits cr ! deferredTrait task = trait \<longrightarrow>
            thenAnalyze tc task =
              (storeRecord tc clazz
                 (cr\<lparr>traits := (traits cr)[deferredTrait task := toErrored trait [d]]\<rparr>), None))"
proof (intro conjI impI)
  assume n: "preanalysisOf trait clazz = None"
  show "analyzeTraits_preanalyze tc clazz i (trait # ts) queue =
             (case analyzeTraits_preanalyze tc clazz (Suc i) ts queue of
                (tc', ts', queue', thrown) \<Rightarrow> (tc', toErrored trait [d] # ts', queue', thrown))"
    unfolding analyzeTraits_preanalyze_at_once [OF n] analyzeTrait_fatal [OF f]
    by (simp split: prod.splits)
next
  assume a: "preanalysis task = Fulfils \<and> deferredClass task = clazz \<and>
          map_of (classes tc) clazz = Some cr \<and> deferredTrait task < length (traits cr) \<and>
          traits cr ! deferredTrait task = trait"
  then have "thenAnalyze tc task =
     (case analyzeTrait tc (deferredClass task) (traits cr ! deferredTrait task) of
        Inl err \<Rightarrow> (tc, Some err)
      | Inr (tc', trait') \<Rightarrow>
          (storeRecord tc' (deferredClass task)
             (cr\<lparr>traits := (traits cr)[deferredTrait task := trait']\<rparr>), None))"
    by (intro thenAnalyze_fulfilled) auto
  with a analyzeTrait_fatal [OF f, of tc]
  show "thenAnalyze tc task =
              (storeRecord tc clazz
                 (cr\<lparr>traits := (traits cr)[deferredTrait task := toErrored trait [d]]\<rparr>), None)"
    by simp
qed

lemma deferred_other:
  assumes f: "state trait = PENDING"
    "analyze (handler trait) clazz (metadata (detected trait)) = Inl (JsError msg)"
  shows "(preanalysisOf trait clazz = None \<longrightarrow>
           analyzeTraits_preanalyze tc clazz i (trait # ts) queue =
             (tc, trait # ts, queue, Some (JsError msg))) \<and>
         (preanalysis task = Fulfils \<and> deferredClass task = clazz \<and>
          map_of (classes tc) clazz = Some cr \<and> deferredTrait task < length (traits cr) \<and>
          traits cr ! deferredTrait task = trait \<longrightarrow>
            thenAnalyze tc task = (tc, Some (JsError msg)))"
proof (intro conjI impI)
  assume n: "preanalysisOf trait clazz = None"
  show "analyzeTraits_preanalyze tc clazz i (trait # ts) queue =
             (tc, trait # ts, queue, Some (JsError msg))"
    unfolding analyzeTraits_preanalyze_at_once [OF n] analyzeTrait_other [OF f] by simp
next
  assume a: "preanalysis task = Fulfils \<and> deferredClass task = clazz \<and>
          map_of (classes tc) clazz = Some cr \<and> deferredTrait task < length (traits cr) \<and>
          traits cr ! deferredTrait task = trait"
  then have "thenAnalyze tc task =
     (case analyzeTrait tc (deferredClass task) (traits cr ! deferredTrait task) of
        Inl err \<Rightarrow> (tc, Some err)
      | Inr (tc', trait') \<Rightarrow>
          (storeRecord tc' (deferredClass task)
             (cr\<lparr>traits := (traits cr)[deferredTrait task := trait']\<rparr>), None))"
    by (intro thenAnalyze_fulfilled) auto
  with a analyzeTrait_other [OF f, of tc]
  show "thenAnalyze tc task = (tc, Some (JsError msg))"
    by simp
qed

lemma Promise_all_append:
  "Promise_all tc (tasks @ tasks') =
     (case Promise_all tc tasks of
        (tc1, rejected) \<Rightarrow>
          (case Promise_all tc1 tasks' of
             (tc2, rejected') \<Rightarrow>
               (tc2, case rejected of Some reason \<Rightarrow> Some reason | None \<Rightarrow> rejected')))"
  by (induction tasks arbitrary: tc) (auto split: prod.splits option.splits)

lemma Promise_all_single: "Promise_all tc [task] = thenAnalyze tc task"
  by (auto split: prod.splits option.splits)

text \<open>
  Claim C4. When the analyze step of the handler of a PENDING trait throws a
  \<open>FatalDiagnosticError\<close>, \<open>analyzeTrait\<close> catches it: the trait is ERRORED with the
  diagnostic of the error, nothing else of the compiler changes, and the loop over the
  traits of the class goes on, the traits before and after it ending as they do without
  it. Any other thrown value leaves \<open>analyzeTrait\<close>, the loop over the traits (the traits
  not yet reached stay as they are), \<open>analyzeClass\<close> and the visit of the source file.
  After a class that did not throw, the visit goes on with the next class, from the
  compiler as the class left it. In every case the records of the other classes are as
  before.

  On the deferred path the same holds of a trait that is analysed at once (its handler
  has no preanalysis, or one that returns no promise), and the loop agrees with the
  synchronous one when no trait is deferred. A trait with a promise is queued and not
  analysed by the loop. When its preanalysis is fulfilled, a fatal diagnostic makes this
  trait of the record ERRORED and the promise is fulfilled; any other thrown value
  rejects the promise and leaves the compiler as it is; so does a rejected preanalysis.
  \<open>Promise.all\<close> runs every promise on the compiler as the earlier ones left it and
  rejects with the first reason.
\<close>

theorem analyze_failures:
  "(state trait = PENDING \<and>
    analyze (handler trait) clazz (metadata (detected trait)) = Inl (FatalDiagnosticError d) \<longrightarrow>
      analyzeTrait tc clazz trait = Inr (tc, toErrored trait [d]) \<and>
      state (toErrored trait [d]) = ERRORED \<and> diagnostics (toErrored trait [d]) = Some [d] \<and>
      (snd (snd (analyzeTraits tc clazz pre)) = None \<longrightarrow>
         analyzeTraits tc clazz (pre @ trait # post) =
           (case analyzeTraits tc clazz (pre @ post) of
              (tc', ts, thrown) \<Rightarrow>
                (tc', take (length pre) ts @ toErrored trait [d] # drop (length pre) ts, thrown)))) \<and>
   (state trait = PENDING \<and>
    analyze (handler trait) clazz (metadata (detected trait)) = Inl (JsError msg) \<longrightarrow>
      analyzeTrait tc clazz trait = Inl (JsError msg) \<and>
      (snd (snd (analyzeTraits tc clazz pre)) = None \<longrightarrow>
         analyzeTraits tc clazz (pre @ trait # post) =
           (fst (analyzeTraits tc clazz pre), fst (snd (analyzeTraits tc clazz pre)) @ trait # post,
            Some (JsError msg)))) \<and>
   (snd (scanClassForTraits ec tc clazz) = Some cr \<longrightarrow>
      snd (analyzeClass ec tc clazz) =
        snd (snd (analyzeTraits (fst (scanClassForTraits ec tc clazz)) clazz (traits cr))) \<and>
      map_of (classes (fst (analyzeClass ec tc clazz))) clazz =
        Some (cr\<lparr>traits :=
                fst (snd (analyzeTraits (fst (scanClassForTraits ec tc clazz)) clazz (traits cr)))\<rparr>)) \<and>
   (snd (analyzeClass ec tc clazz) = Some e \<longrightarrow>
      analyzeSync ec tc (clazz # cs) = analyzeClass ec tc clazz) \<and>
   (c \<noteq> clazz \<longrightarrow> map_of (classes (fst (analyzeClass ec tc clazz))) c = map_of (classes tc) c) \<and>
   (snd (analyzeClass ec tc clazz) = None \<longrightarrow>
      analyzeSync ec tc (clazz # cs) = analyzeSync ec (fst (analyzeClass ec tc clazz)) cs) \<and>
   analyzeSync ec tc [] = (tc, None) \<and>
   (snd (scanClassForTraits ec tc clazz) = None \<longrightarrow>
      analyzeClass ec tc clazz = (fst (scanClassForTraits ec tc clazz), None)) \<and>
   (state trait = PENDING \<and>
    analyze (handler trait) clazz (metadata (detected trait)) = Inl (FatalDiagnosticError d) \<longrightarrow>
      (preanalysisOf trait clazz = None \<longrightarrow>
         analyzeTraits_preanalyze tc clazz i (trait # ts) queue =
           (case analyzeTraits_preanalyze tc clazz (Suc i) ts queue of
              (tc', ts', queue', thrown) \<Rightarrow> (tc', toErrored trait [d] # ts', queue', thrown))) \<and>
      (preanalysis task = Fulfils \<and> deferredClass task = clazz \<and>
       map_of (classes tc) clazz = Some cr \<and> deferredTrait task < length (traits cr) \<and>
       traits cr ! deferredTrait task = trait \<longrightarrow>
         thenAnalyze tc task =
           (storeRecord tc clazz
              (cr\<lparr>traits := (traits cr)[deferredTrait task := toErrored trait [d]]\<rparr>), None))) \<and>
   (state trait = PENDING \<and>
    analyze (handler trait) clazz (metadata (detected trait)) = Inl (JsError msg) \<longrightarrow>
      (preanalysisOf trait clazz = None \<longrightarrow>
         analyzeTraits_preanalyze tc clazz i (trait # ts) queue =
           (tc, trait # ts, queue, Some (JsError msg))) \<and>
      (preanalysis task = Fulfils \<and> deferredClass task = clazz \<and>
       map_of (classes tc) clazz = Some cr \<and> deferredTrait task < length (traits cr) \<and>
       traits cr ! deferredTrait task = trait \<longrightarrow>
         thenAnalyze tc task = (tc, Some (JsError msg)))) \<and>
   (preanalysisOf trait clazz = Some promise \<longrightarrow>
      analyzeTraits_preanalyze tc clazz i (trait # ts) queue =
        (case analyzeTraits_preanalyze tc clazz (Suc i) ts
                (queue @ [\<lparr>deferredClass = clazz, deferredTrait = i, preanalysis = promise\<rparr>]) of
           (tc', ts', queue', thrown) \<Rightarrow> (tc', trait # ts', queue', thrown))) \<and>
   ((\<forall>t\<in>set ts. preanalysisOf t clazz = None) \<longrightarrow>
      analyzeTraits_preanalyze tc clazz i ts queue =
        (case analyzeTraits tc clazz ts of (tc', ts', thrown) \<Rightarrow> (tc', ts', queue, thrown))) \<and>
   (preanalysis task = Rejects reason \<longrightarrow> thenAnalyze tc task = (tc, Some reason)) \<and>
   Promise_all tc [] = (tc, None) \<and>
   Promise_all tc [task] = thenAnalyze tc task \<and>
   Promise_all tc (tasks @ tasks') =
     (case Promise_all tc tasks of
        (tc1, rejected) \<Rightarrow>
          (case Promise_all tc1 tasks' of
             (tc2, rejected') \<Rightarrow>
               (tc2, case rejected of Some reason \<Rightarrow> Some reason | None \<Rightarrow> rejected'))) \<and>
   (snd (scanClassForTraits ec tc clazz) = Some cr \<longrightarrow>
      analyzeClass_preanalyze ec tc clazz queue =
        (case analyzeTraits_preanalyze (fst (scanClassForTraits ec tc clazz)) clazz 0 (traits cr)
                queue of
           (tc2, ts, queue', thrown) \<Rightarrow>
             (storeRecord tc2 clazz (cr\<lparr>traits := ts\<rparr>), queue', thrown))) \<and>
   (snd (scanClassForTraits ec tc clazz) = None \<longrightarrow>
      analyzeClass_preanalyze ec tc clazz queue =
        (fst (scanClassForTraits ec tc clazz), queue, None)) \<and>
   analyzeAsync ec tc cs = visit_preanalyze ec tc cs [] \<and>
   visit_preanalyze ec tc [] queue = (tc, queue, None) \<and>
   (snd (snd (analyzeClass_preanalyze ec tc clazz queue)) = Some e \<longrightarrow>
      visit_preanalyze ec tc (clazz # cs) queue = analyzeClass_preanalyze ec tc clazz queue) \<and>
   (snd (snd (analyzeClass_preanalyze ec tc clazz queue)) = None \<longrightarrow>
      visit_preanalyze ec tc (clazz # cs) queue =
        visit_preanalyze ec (fst (analyzeClass_preanalyze ec tc clazz queue)) cs
          (fst (snd (analyzeClass_preanalyze ec tc clazz queue)))) \<and>
   (c \<noteq> deferredClass task \<longrightarrow>
      map_of (classes (fst (thenAnalyze tc task))) c = map_of (classes tc) c) \<and>
   (c \<noteq> clazz \<longrightarrow>
      map_of (classes (fst (analyzeClass_preanalyze ec tc clazz queue))) c = map_of (classes tc) c)"
proof -
  note s = analyze_failures_sync [of trait clazz d tc pre post msg ec cr e cs c]
  note s1 = s [THEN conjunct1]
  note s2 = s [THEN conjunct2, THEN conjunct1]
  note s3 = s [THEN conjunct2, THEN conjunct2, THEN conjunct1]
  note s4 = s [THEN conjunct2, THEN conjunct2, THEN conjunct2, THEN conjunct1]
  note s5 = s [THEN conjunct2, THEN conjunct2, THEN conjunct2, THEN conjunct2]
  have n6: "snd (analyzeClass ec tc clazz) = None \<longrightarrow>
      analyzeSync ec tc (clazz # cs) = analyzeSync ec (fst (analyzeClass ec tc clazz)) cs"
    by (intro impI, erule analyzeSync_continues)
  have n7: "analyzeSync ec tc [] = (tc, None)" by simp
  have n8: "snd (scanClassForTraits ec tc clazz) = None \<longrightarrow>
      analyzeClass ec tc clazz = (fst (scanClassForTraits ec tc clazz), None)"
    by (intro impI, erule analyzeClass_None)
  have n9: "state trait = PENDING \<and>
    analyze (handler trait) clazz (metadata (detected trait)) = Inl (FatalDiagnosticError d) \<longrightarrow>
      (preanalysisOf trait clazz = None \<longrightarrow>
         analyzeTraits_preanalyze tc clazz i (trait # ts) queue =
           (case analyzeTraits_preanalyze tc clazz (Suc i) ts queue of
              (tc', ts', queue', thrown) \<Rightarrow> (tc', toErrored trait [d] # ts', queue', thrown))) \<and>
      (preanalysis task = Fulfils \<and> deferredClass task = clazz \<and>
       map_of (classes tc) clazz = Some cr \<and> deferredTrait task < length (traits cr) \<and>
       traits cr ! deferredTrait task = trait \<longrightarrow>
         thenAnalyze tc task =
           (storeRecord tc clazz
              (cr\<lparr>traits := (traits cr)[deferredTrait task := toErrored trait [d]]\<rparr>), None))"
  proof
    assume a: "state trait = PENDING \<and>
      analyze (handler trait) clazz (metadata (detected trait)) = Inl (FatalDiagnosticError d)"
    show "(preanalysisOf trait clazz = None \<longrightarrow>
         analyzeTraits_preanalyze tc clazz i (trait # ts) queue =
           (case analyzeTraits_preanalyze tc clazz (Suc i) ts queue of
              (tc', ts', queue', thrown) \<Rightarrow> (tc', toErrored trait [d] # ts', queue', thrown))) \<and>
      (preanalysis task = Fulfils \<and> deferredClass task = clazz \<and>
       map_of (classes tc) clazz = Some cr \<and> deferredTrait task < length (traits cr) \<and>
       traits cr ! deferredTrait task = trait \<longrightarrow>
         thenAnalyze tc task =
           (storeRecord tc clazz
              (cr\<lparr>traits := (traits cr)[deferredTrait task := toErrored trait [d]]\<rparr>), None))"
      by (rule deferred_fatal) (use a in simp_all)
  qed
  have n10: "state trait = PENDING \<and>
    analyze (handler trait) clazz (metadata (detected trait)) = Inl (JsError msg) \<longrightarrow>
      (preanalysisOf trait clazz = None \<longrightarrow>
         analyzeTraits_preanalyze tc clazz i (trait # ts) queue =
           (tc, trait # ts, queue, Some (JsError msg))) \<and>
      (preanalysis task = Fulfils \<and> deferredClass task = clazz \<and>
       map_of (classes tc) clazz = Some cr \<and> deferredTrait task < length (traits cr) \<and>
       traits cr ! deferredTrait task = trait \<longrightarrow>
         thenAnalyze tc task = (tc, Some (JsError msg)))"
  proof
    assume a: "state trait = PENDING \<and>
      analyze (handler trait) clazz (metadata (detected trait)) = Inl (JsError msg)"
    show "(preanalysisOf trait clazz = None \<longrightarrow>
         analyzeTraits_preanalyze tc clazz i (trait # ts) queue =
           (tc, trait # ts, queue, Some (JsError msg))) \<and>
      (preanalysis task = Fulfils \<and> deferredClass task = clazz \<and>
       map_of (classes tc) clazz = Some cr \<and> deferredTrait task < length (traits cr) \<and>
       traits cr ! deferredTrait task = trait \<longrightarrow>
         thenAnalyze tc task = (tc, Some (JsError msg)))"
      by (rule deferred_other) (use a in simp_all)
  qed
  have n11: "preanalysisOf trait clazz = Some promise \<longrightarrow>
      analyzeTraits_preanalyze tc clazz i (trait # ts) queue =
        (case analyzeTraits_preanalyze tc clazz (Suc i) ts
                (queue @ [\<lparr>deferredClass = clazz, deferredTrait = i, preanalysis = promise\<rparr>]) of
           (tc', ts', queue', thrown) \<Rightarrow> (tc', trait # ts', queue', thrown))"
    by (intro impI, erule analyzeTraits_preanalyze_deferred)
  have n12: "(\<forall>t\<in>set ts. preanalysisOf t clazz = None) \<longrightarrow>
      analyzeTraits_preanalyze tc clazz i ts queue =
        (case analyzeTraits tc clazz ts of (tc', ts', thrown) \<Rightarrow> (tc', ts', queue, thrown))"
    by (intro impI, erule analyzeTraits_preanalyze_sync)
  have n13: "preanalysis task = Rejects reason \<longrightarrow> thenAnalyze tc task = (tc, Some reason)"
    by (intro impI, erule thenAnalyze_rejected)
  have n14: "Promise_all tc [] = (tc, None)" by simp
  note n15 = Promise_all_single [of tc task]
  note n16 = Promise_all_append [of tc tasks tasks']
  have n17: "snd (scanClassForTraits ec tc clazz) = Some cr \<longrightarrow>
      analyzeClass_preanalyze ec tc clazz queue =
        (case analyzeTraits_preanalyze (fst (scanClassForTraits ec tc clazz)) clazz 0 (traits cr)
                queue of
           (tc2, ts, queue', thrown) \<Rightarrow>
             (storeRecord tc2 clazz (cr\<lparr>traits := ts\<rparr>), queue', thrown))"
    by (intro impI, erule analyzeClass_preanalyze_Some)
  have n18: "snd (scanClassForTraits ec tc clazz) = None \<longrightarrow>
      analyzeClass_preanalyze ec tc clazz queue =
        (fst (scanClassForTraits ec tc clazz), queue, None)"
    by (intro impI, erule analyzeClass_preanalyze_None)
  have n19: "analyzeAsync ec tc cs = visit_preanalyze ec tc cs []"
    by (simp add: analyzeAsync_def)
  have n20: "visit_preanalyze ec tc [] queue = (tc, queue, None)" by simp
  have n21: "snd (snd (analyzeClass_preanalyze ec tc clazz queue)) = Some e \<longrightarrow>
      visit_preanalyze ec tc (clazz # cs) queue = analyzeClass_preanalyze ec tc clazz queue"
    by (intro impI, erule visit_preanalyze_throws)
  have n22: "snd (snd (analyzeClass_preanalyze ec tc clazz queue)) = None \<longrightarrow>
      visit_preanalyze ec tc (clazz # cs) queue =
        visit_preanalyze ec (fst (analyzeClass_preanalyze ec tc clazz queue)) cs
          (fst (snd (analyzeClass_preanalyze ec tc clazz queue)))"
    by (intro impI, erule visit_preanalyze_continues)
  have n23: "c \<noteq> deferredClass task \<longrightarrow>
      map_of (classes (fst (thenAnalyze tc task))) c = map_of (classes tc) c"
    by (intro impI, erule other_thenAnalyze)
  have n24: "c \<noteq> clazz \<longrightarrow>
      map_of (classes (fst (analyzeClass_preanalyze ec tc clazz queue))) c = map_of (classes tc) c"
    by (intro impI, erule other_analyzeClass_preanalyze)
  from s1 s2 s3 s4 s5 n6 n7 n8 n9 n10 n11 n12 n13 n14 n15 n16 n17 n18 n19 n20 n21 n22 n23 n24
  show ?thesis by (intro conjI) assumption+
qed

lemmas analyze_defs = analyzeClass_def analyzeTrait_def toAnalyzed_def toErrored_def toSkipped_def

lemmas analyze_example_defs = failingCompiler_def failingHandler_def badSelector_def
  exampleCompiler_def exampleHandler_def exampleClass_def otherClass_def

lemmas deferred_example_defs = deferringCompiler_def preanalyzingHandler_def succeeded_def
  statesOf_def deferred_def preanalyzedTrait_def failingTrait_def recordWith_def compilerWith_def

lemmas deferred_defs = analyzeAsync_def analyzeClass_preanalyze_def thenAnalyze_def preanalysisOf_def

theorem analyze_failures_witness:
  "analyzeTrait (failingCompiler (FatalDiagnosticError badSelector)) exampleClass
      (failingTrait (FatalDiagnosticError badSelector)) =
     Inr (failingCompiler (FatalDiagnosticError badSelector),
          toErrored (failingTrait (FatalDiagnosticError badSelector)) [badSelector]) \<and>
   snd (analyzeClass 1006 (failingCompiler (FatalDiagnosticError badSelector)) exampleClass) = None \<and>
   (\<exists>cr. map_of (classes (fst (analyzeClass 1006 (failingCompiler (FatalDiagnosticError badSelector))
              exampleClass))) exampleClass = Some cr \<and>
      map state (traits cr) = [ANALYZED, ERRORED, ANALYZED] \<and>
      map diagnostics (traits cr) = [None, Some [badSelector], None]) \<and>
   map_of (classes (fst (analyzeClass 1006 (failingCompiler (FatalDiagnosticError badSelector))
      exampleClass))) otherClass = None \<and>
   (\<exists>cr. snd (scanClassForTraits 1006 (failingCompiler (JsError ''boom'')) exampleClass) = Some cr \<and>
      snd (analyzeClass 1006 (failingCompiler (JsError ''boom'')) exampleClass) =
        snd (snd (analyzeTraits (fst (scanClassForTraits 1006 (failingCompiler (JsError ''boom''))
          exampleClass)) exampleClass (traits cr)))) \<and>
   analyzeTrait (failingCompiler (JsError ''boom'')) exampleClass (failingTrait (JsError ''boom'')) =
     Inl (JsError ''boom'') \<and>
   snd (analyzeClass 1006 (failingCompiler (JsError ''boom'')) exampleClass) = Some (JsError ''boom'') \<and>
   analyzeSync 1006 (failingCompiler (JsError ''boom'')) [exampleClass, otherClass] =
     analyzeClass 1006 (failingCompiler (JsError ''boom'')) exampleClass \<and>
   statesOf (fst (analyzeSync 1006 (failingCompiler (JsError ''boom'')) [exampleClass, otherClass]))
     exampleClass = [ANALYZED, PENDING, PENDING] \<and>
   statesOf (fst (analyzeSync 1006 (failingCompiler (JsError ''boom'')) [exampleClass, otherClass]))
     otherClass = [] \<and>
   analyzeSync 1006 (failingCompiler (FatalDiagnosticError badSelector)) [exampleClass, otherClass] =
     analyzeSync 1006
       (fst (analyzeClass 1006 (failingCompiler (FatalDiagnosticError badSelector)) exampleClass))
       [otherClass] \<and>
   snd (analyzeSync 1006 (failingCompiler (FatalDiagnosticError badSelector))
      [exampleClass, otherClass]) = None \<and>
   statesOf (fst (analyzeSync 1006 (failingCompiler (FatalDiagnosticError badSelector))
      [exampleClass, otherClass])) exampleClass = [ANALYZED, ERRORED, ANALYZED] \<and>
   statesOf (fst (analyzeSync 1006 (failingCompiler (FatalDiagnosticError badSelector))
      [exampleClass, otherClass])) otherClass = [ANALYZED, ERRORED, ANALYZED] \<and>
   analyzeClass 1006 (exampleCompiler []) exampleClass = (exampleCompiler [], None) \<and>
   analyzeTraits_preanalyze (failingCompiler (FatalDiagnosticError badSelector)) exampleClass 0
      [failingTrait (FatalDiagnosticError badSelector)] [] =
     (failingCompiler (FatalDiagnosticError badSelector),
      [toErrored (failingTrait (FatalDiagnosticError badSelector)) [badSelector]], [], None) \<and>
   thenAnalyze (compilerWith [pendingTrait, failingTrait (FatalDiagnosticError badSelector)])
      (deferred exampleClass 1 Fulfils) =
     (compilerWith [pendingTrait,
        toErrored (failingTrait (FatalDiagnosticError badSelector)) [badSelector]], None) \<and>
   analyzeTraits_preanalyze (failingCompiler (JsError ''boom'')) exampleClass 0
      [failingTrait (JsError ''boom''), pendingTrait] [] =
     (failingCompiler (JsError ''boom''), [failingTrait (JsError ''boom''), pendingTrait], [],
      Some (JsError ''boom'')) \<and>
   thenAnalyze (compilerWith [failingTrait (JsError ''boom'')]) (deferred exampleClass 0 Fulfils) =
     (compilerWith [failingTrait (JsError ''boom'')], Some (JsError ''boom'')) \<and>
   analyzeTraits_preanalyze (exampleCompiler []) exampleClass 0 [preanalyzedTrait] [] =
     (exampleCompiler [], [preanalyzedTrait], [deferred exampleClass 0 Fulfils], None) \<and>
   thenAnalyze (compilerWith [pendingTrait]) (deferred exampleClass 0 (Rejects (JsError ''unreadable''))) =
     (compilerWith [pendingTrait], Some (JsError ''unreadable'')) \<and>
   Promise_all (compilerWith [failingTrait (JsError ''boom''),
        failingTrait (FatalDiagnosticError badSelector)])
      ([deferred exampleClass 0 Fulfils] @ [deferred exampleClass 1 Fulfils]) =
     (compilerWith [failingTrait (JsError ''boom''),
        toErrored (failingTrait (FatalDiagnosticError badSelector)) [badSelector]],
      Some (JsError ''boom'')) \<and>
   analyzeClass_preanalyze 1006 (exampleCompiler []) exampleClass [] = (exampleCompiler [], [], None) \<and>
   analyzeAsync 1006 (failingCompiler (JsError ''boom'')) [exampleClass, otherClass] =
     analyzeClass_preanalyze 1006 (failingCompiler (JsError ''boom'')) exampleClass [] \<and>
   snd (snd (analyzeAsync 1006 (failingCompiler (JsError ''boom'')) [exampleClass, otherClass])) =
     Some (JsError ''boom'') \<and>
   map_of (classes (fst (thenAnalyze (compilerWith [failingTrait (FatalDiagnosticError badSelector)])
      (deferred exampleClass 0 Fulfils)))) otherClass = None \<and>
   map_of (classes (fst (analyzeClass_preanalyze 1006
      (failingCompiler (FatalDiagnosticError badSelector)) exampleClass []))) otherClass = None \<and>
   fst (snd (analyzeAsync 1006 deferringCompiler [exampleClass, otherClass])) =
     [deferred exampleClass 1 Fulfils, deferred exampleClass 2 Fulfils,
      deferred exampleClass 3 (Rejects (JsError ''unreadable'')),
      deferred otherClass 1 Fulfils, deferred otherClass 2 Fulfils,
      deferred otherClass 3 (Rejects (JsError ''unreadable''))] \<and>
   snd (snd (analyzeAsync 1006 deferringCompiler [exampleClass, otherClass])) = None \<and>
   statesOf (fst (analyzeAsync 1006 deferringCompiler [exampleClass, otherClass])) exampleClass =
     [ANALYZED, PENDING, PENDING, PENDING, ERRORED] \<and>
   statesOf (fst (analyzeAsync 1006 deferringCompiler [exampleClass, otherClass])) otherClass =
     [ANALYZED, PENDING, PENDING, PENDING, ERRORED] \<and>
   snd (Promise_all (fst (analyzeAsync 1006 deferringCompiler [exampleClass, otherClass]))
      [deferred otherClass 3 (Rejects (JsError ''unreadable'')), deferred exampleClass 1 Fulfils,
       deferred otherClass 2 Fulfils, deferred exampleClass 3 (Rejects (JsError ''unreadable'')),
       deferred otherClass 1 Fulfils, deferred exampleClass 2 Fulfils]) = Some (JsError ''unreadable'') \<and>
   statesOf (fst (Promise_all (fst (analyzeAsync 1006 deferringCompiler [exampleClass, otherClass]))
      [deferred otherClass 3 (Rejects (JsError ''unreadable'')), deferred exampleClass 1 Fulfils,
       deferred otherClass 2 Fulfils, deferred exampleClass 3 (Rejects (JsError ''unreadable'')),
       deferred otherClass 1 Fulfils, deferred exampleClass 2 Fulfils])) exampleClass =
     [ANALYZED, ERRORED, PENDING, PENDING, ERRORED] \<and>
   statesOf (fst (Promise_all (fst (analyzeAsync 1006 deferringCompiler [exampleClass, otherClass]))
      [deferred otherClass 3 (Rejects (JsError ''unreadable'')), deferred exampleClass 1 Fulfils,
       deferred otherClass 2 Fulfils, deferred exampleClass 3 (Rejects (JsError ''unreadable'')),
       deferred otherClass 1 Fulfils, deferred exampleClass 2 Fulfils])) otherClass =
     [ANALYZED, ERRORED, PENDING, PENDING, ERRORED]"
proof -
  let ?tcF = "failingCompiler (FatalDiagnosticError badSelector)"
  let ?tF = "failingTrait (FatalDiagnosticError badSelector)"
  let ?tcJ = "failingCompiler (JsError ''boom'')"
  let ?tJ = "failingTrait (JsError ''boom'')"
  note r1 = analyze_failures [THEN conjunct2]
  note r2 = r1 [THEN conjunct2]
  note r3 = r2 [THEN conjunct2]
  note r4 = r3 [THEN conjunct2]
  note r5 = r4 [THEN conjunct2]
  note r6 = r5 [THEN conjunct2]
  note r7 = r6 [THEN conjunct2]
  note r8 = r7 [THEN conjunct2]
  note r9 = r8 [THEN conjunct2]
  note r10 = r9 [THEN conjunct2]
  note r11 = r10 [THEN conjunct2]
  note r12 = r11 [THEN conjunct2]
  note r13 = r12 [THEN conjunct2]
  note r14 = r13 [THEN conjunct2]
  note r15 = r14 [THEN conjunct2]
  note r16 = r15 [THEN conjunct2]
  note r17 = r16 [THEN conjunct2]
  note r18 = r17 [THEN conjunct2]
  note r19 = r18 [THEN conjunct2]
  note r20 = r19 [THEN conjunct2]
  note r21 = r20 [THEN conjunct2]
  note r22 = r21 [THEN conjunct2]
  note r23 = r22 [THEN conjunct2]
  have hF: "state ?tF = PENDING \<and>
      analyze (handler ?tF) exampleClass (metadata (detected ?tF)) =
        Inl (FatalDiagnosticError badSelector)"
    by (simp add: failingTrait_def failingHandler_def Trait_pending_def)
  have hJ: "state ?tJ = PENDING \<and>
      analyze (handler ?tJ) exampleClass (metadata (detected ?tJ)) = Inl (JsError ''boom'')"
    by (simp add: failingTrait_def failingHandler_def Trait_pending_def)
  have nF: "preanalysisOf ?tF exampleClass = None"
    by (simp add: preanalysisOf_def failingTrait_def failingHandler_def exampleHandler_def
        Trait_pending_def)
  have nJ: "preanalysisOf ?tJ exampleClass = None"
    by (simp add: preanalysisOf_def failingTrait_def failingHandler_def exampleHandler_def
        Trait_pending_def)
  have ne: "otherClass \<noteq> exampleClass"
    by (simp add: exampleClass_def otherClass_def)
  from analyze_failures [THEN conjunct1, THEN mp, OF hF, of ?tcF]
  have 1: "analyzeTrait ?tcF exampleClass ?tF = Inr (?tcF, toErrored ?tF [badSelector])"
    by simp
  from r1 [THEN conjunct1, THEN mp, OF hJ, of ?tcJ]
  have 5: "analyzeTrait ?tcJ exampleClass ?tJ = Inl (JsError ''boom'')"
    by simp
  have 2: "snd (analyzeClass 1006 ?tcF exampleClass) = None"
    by (simp add: analyze_defs scan_defs analyze_example_defs)
  have 3: "\<exists>cr. map_of (classes (fst (analyzeClass 1006 ?tcF exampleClass))) exampleClass = Some cr \<and>
      map state (traits cr) = [ANALYZED, ERRORED, ANALYZED] \<and>
      map diagnostics (traits cr) = [None, Some [badSelector], None]"
    by (simp add: analyze_defs scan_defs analyze_example_defs)
  from r4 [THEN conjunct1, THEN mp, OF ne, of 1006 ?tcF]
  have 4: "map_of (classes (fst (analyzeClass 1006 ?tcF exampleClass))) otherClass = None"
    by (simp add: failingCompiler_def exampleCompiler_def)
  have 6: "snd (analyzeClass 1006 ?tcJ exampleClass) = Some (JsError ''boom'')"
    by (simp add: analyze_defs scan_defs analyze_example_defs)
  from r3 [THEN conjunct1, THEN mp, OF 6]
  have 7: "analyzeSync 1006 ?tcJ [exampleClass, otherClass] = analyzeClass 1006 ?tcJ exampleClass" .
  have "\<exists>cr. snd (scanClassForTraits 1006 ?tcJ exampleClass) = Some cr"
    by (simp add: scan_defs analyze_example_defs)
  then obtain cr where cr: "snd (scanClassForTraits 1006 ?tcJ exampleClass) = Some cr" ..
  from r2 [THEN conjunct1, THEN mp, OF cr] cr
  have 8: "\<exists>cr. snd (scanClassForTraits 1006 ?tcJ exampleClass) = Some cr \<and>
      snd (analyzeClass 1006 ?tcJ exampleClass) =
        snd (snd (analyzeTraits (fst (scanClassForTraits 1006 ?tcJ exampleClass)) exampleClass
          (traits cr)))"
    by (intro exI [of _ cr]) simp
  have 9: "statesOf (fst (analyzeSync 1006 ?tcJ [exampleClass, otherClass])) exampleClass =
      [ANALYZED, PENDING, PENDING]"
    "statesOf (fst (analyzeSync 1006 ?tcJ [exampleClass, otherClass])) otherClass = []"
    unfolding 7 by (simp_all add: analyze_defs scan_defs analyze_example_defs statesOf_def)
  from r5 [THEN conjunct1, THEN mp, OF 2]
  have 10: "analyzeSync 1006 ?tcF [exampleClass, otherClass] =
      analyzeSync 1006 (fst (analyzeClass 1006 ?tcF exampleClass)) [otherClass]" .
  have 11: "snd (analyzeSync 1006 ?tcF [exampleClass, otherClass]) = None"
    "statesOf (fst (analyzeSync 1006 ?tcF [exampleClass, otherClass])) exampleClass =
       [ANALYZED, ERRORED, ANALYZED]"
    "statesOf (fst (analyzeSync 1006 ?tcF [exampleClass, otherClass])) otherClass =
       [ANALYZED, ERRORED, ANALYZED]"
    by (simp_all add: analyze_defs scan_defs analyze_example_defs statesOf_def)
  have e0: "snd (scanClassForTraits 1006 (exampleCompiler [] :: nat TraitCompiler) exampleClass) = None"
    "fst (scanClassForTraits 1006 (exampleCompiler [] :: nat TraitCompiler) exampleClass) =
       exampleCompiler []"
    by (simp_all add: scan_defs exampleCompiler_def exampleClass_def)
  from r7 [THEN conjunct1, THEN mp, OF e0(1)] e0(2)
  have 12: "analyzeClass 1006 (exampleCompiler [] :: nat TraitCompiler) exampleClass =
      (exampleCompiler [], None)" by simp
  from r8 [THEN conjunct1, THEN mp, OF hF, THEN conjunct1, THEN mp, OF nF, of ?tcF 0 "[]" "[]"]
  have 13: "analyzeTraits_preanalyze ?tcF exampleClass 0 [?tF] [] =
      (?tcF, [toErrored ?tF [badSelector]], [], None)"
    by simp
  have tk: "preanalysis (deferred exampleClass 1 Fulfils) = Fulfils \<and>
      deferredClass (deferred exampleClass 1 Fulfils) = exampleClass \<and>
      map_of (classes (compilerWith [pendingTrait, ?tF])) exampleClass =
        Some (recordWith [pendingTrait, ?tF]) \<and>
      deferredTrait (deferred exampleClass 1 Fulfils) < length (traits (recordWith [pendingTrait, ?tF])) \<and>
      traits (recordWith [pendingTrait, ?tF]) ! deferredTrait (deferred exampleClass 1 Fulfils) = ?tF"
    by (simp add: deferred_def compilerWith_def recordWith_def)
  from r8 [THEN conjunct1, THEN mp, OF hF, THEN conjunct2, THEN mp, OF tk]
  have 14: "thenAnalyze (compilerWith [pendingTrait, ?tF]) (deferred exampleClass 1 Fulfils) =
      (compilerWith [pendingTrait, toErrored ?tF [badSelector]], None)"
    by (simp add: deferred_def compilerWith_def recordWith_def storeRecord_def)
  from r9 [THEN conjunct1, THEN mp, OF hJ, THEN conjunct1, THEN mp, OF nJ,
      of ?tcJ 0 "[pendingTrait]" "[]"]
  have 15: "analyzeTraits_preanalyze ?tcJ exampleClass 0 [?tJ, pendingTrait] [] =
      (?tcJ, [?tJ, pendingTrait], [], Some (JsError ''boom''))" .
  have tj: "preanalysis (deferred exampleClass 0 Fulfils) = Fulfils \<and>
      deferredClass (deferred exampleClass 0 Fulfils) = exampleClass \<and>
      map_of (classes (compilerWith [?tJ])) exampleClass = Some (recordWith [?tJ]) \<and>
      deferredTrait (deferred exampleClass 0 Fulfils) < length (traits (recordWith [?tJ])) \<and>
      traits (recordWith [?tJ]) ! deferredTrait (deferred exampleClass 0 Fulfils) = ?tJ"
    by (simp add: deferred_def compilerWith_def recordWith_def)
  from r9 [THEN conjunct1, THEN mp, OF hJ, THEN conjunct2, THEN mp, OF tj]
  have 16: "thenAnalyze (compilerWith [?tJ]) (deferred exampleClass 0 Fulfils) =
      (compilerWith [?tJ], Some (JsError ''boom''))" .
  have pP: "preanalysisOf preanalyzedTrait exampleClass = Some Fulfils"
    by (simp add: preanalysisOf_def preanalyzedTrait_def preanalyzingHandler_def Trait_pending_def)
  from r10 [THEN conjunct1, THEN mp, OF pP, of "exampleCompiler []" 0 "[]" "[]"]
  have 17: "analyzeTraits_preanalyze (exampleCompiler []) exampleClass 0 [preanalyzedTrait] [] =
      (exampleCompiler [], [preanalyzedTrait], [deferred exampleClass 0 Fulfils], None)"
    by (simp add: deferred_def)
  have "preanalysis (deferred exampleClass 0 (Rejects (JsError ''unreadable''))) =
      Rejects (JsError ''unreadable'')"
    by (simp add: deferred_def)
  from r12 [THEN conjunct1, THEN mp, OF this]
  have 18: "thenAnalyze (compilerWith [pendingTrait])
      (deferred exampleClass 0 (Rejects (JsError ''unreadable''))) =
      (compilerWith [pendingTrait], Some (JsError ''unreadable''))" .
  have 19: "Promise_all (compilerWith [?tJ, ?tF])
      ([deferred exampleClass 0 Fulfils] @ [deferred exampleClass 1 Fulfils]) =
      (compilerWith [?tJ, toErrored ?tF [badSelector]], Some (JsError ''boom''))"
    unfolding r15 [THEN conjunct1] r14 [THEN conjunct1]
    by (simp add: thenAnalyze_def analyzeTrait_def toErrored_def deferred_def compilerWith_def
        recordWith_def storeRecord_def failingTrait_def failingHandler_def exampleHandler_def
        Trait_pending_def)
  from r17 [THEN conjunct1, THEN mp, OF e0(1)] e0(2)
  have 20: "analyzeClass_preanalyze 1006 (exampleCompiler [] :: nat TraitCompiler) exampleClass [] =
      (exampleCompiler [], [], None)" by simp
  have 21: "snd (snd (analyzeClass_preanalyze 1006 ?tcJ exampleClass [])) = Some (JsError ''boom'')"
    by (simp add: deferred_defs analyze_defs scan_defs analyze_example_defs)
  from r20 [THEN conjunct1, THEN mp, OF 21]
  have 22: "analyzeAsync 1006 ?tcJ [exampleClass, otherClass] =
      analyzeClass_preanalyze 1006 ?tcJ exampleClass []"
    unfolding r18 [THEN conjunct1] .
  from 21 22
  have 23: "snd (snd (analyzeAsync 1006 ?tcJ [exampleClass, otherClass])) = Some (JsError ''boom'')"
    by simp
  have "otherClass \<noteq> deferredClass (deferred exampleClass 0 Fulfils)"
    using ne by (simp add: deferred_def)
  from r22 [THEN conjunct1, THEN mp, OF this, of "compilerWith [?tF]"]
  have 24: "map_of (classes (fst (thenAnalyze (compilerWith [?tF]) (deferred exampleClass 0 Fulfils))))
      otherClass = None"
    using ne by (simp add: compilerWith_def)
  from r23 [THEN mp, OF ne, of 1006 ?tcF "[]"]
  have 25: "map_of (classes (fst (analyzeClass_preanalyze 1006 ?tcF exampleClass []))) otherClass = None"
    by (simp add: failingCompiler_def exampleCompiler_def)
  have 26: "fst (snd (analyzeAsync 1006 deferringCompiler [exampleClass, otherClass])) =
     [deferred exampleClass 1 Fulfils, deferred exampleClass 2 Fulfils,
      deferred exampleClass 3 (Rejects (JsError ''unreadable'')),
      deferred otherClass 1 Fulfils, deferred otherClass 2 Fulfils,
      deferred otherClass 3 (Rejects (JsError ''unreadable''))]"
    "snd (snd (analyzeAsync 1006 deferringCompiler [exampleClass, otherClass])) = None"
    "statesOf (fst (analyzeAsync 1006 deferringCompiler [exampleClass, otherClass])) exampleClass =
       [ANALYZED, PENDING, PENDING, PENDING, ERRORED]"
    "statesOf (fst (analyzeAsync 1006 deferringCompiler [exampleClass, otherClass])) otherClass =
       [ANALYZED, PENDING, PENDING, PENDING, ERRORED]"
    by (simp_all add: deferred_defs analyze_defs scan_defs deferred_example_defs analyze_example_defs)
  have 27: "snd (Promise_all (fst (analyzeAsync 1006 deferringCompiler [exampleClass, otherClass]))
      [deferred otherClass 3 (Rejects (JsError ''unreadable'')), deferred exampleClass 1 Fulfils,
       deferred otherClass 2 Fulfils, deferred exampleClass 3 (Rejects (JsError ''unreadable'')),
       deferred otherClass 1 Fulfils, deferred exampleClass 2 Fulfils]) = Some (JsError ''unreadable'')"
    "statesOf (fst (Promise_all (fst (analyzeAsync 1006 deferringCompiler [exampleClass, otherClass]))
      [deferred otherClass 3 (Rejects (JsError ''unreadable'')), deferred exampleClass 1 Fulfils,
       deferred otherClass 2 Fulfils, deferred exampleClass 3 (Rejects (JsError ''unreadable'')),
       deferred otherClass 1 Fulfils, deferred exampleClass 2 Fulfils])) exampleClass =
     [ANALYZED, ERRORED, PENDING, PENDING, ERRORED]"
    "statesOf (fst (Promise_all (fst (analyzeAsync 1006 deferringCompiler [exampleClass, otherClass]))
      [deferred otherClass 3 (Rejects (JsError ''unreadable'')), deferred exampleClass 1 Fulfils,
       deferred otherClass 2 Fulfils, deferred exampleClass 3 (Rejects (JsError ''unreadable'')),
       deferred otherClass 1 Fulfils, deferred exampleClass 2 Fulfils])) otherClass =
     [ANALYZED, ERRORED, PENDING, PENDING, ERRORED]"
    by (simp_all add: deferred_defs analyze_defs scan_defs deferred_example_defs analyze_example_defs)
  from 1 2 3 4 8 5 6 7 9 10 11 12 13 14 15 16 17 18 19 20 22 23 24 25 26 27
  show ?thesis by (intro conjI) assumption+
qed

end
